theory Spec2Isabelle
  imports Complex_Main "HOL-Library.Multiset"
begin

section \<open>JavaScript numbers\<close>

text \<open>
  The simulation computes with JavaScript numbers. A finite number is modelled as a
  \<^typ>\<open>real\<close>; rounding, overflow to infinity and the sign of zero are not modelled.
  What is modelled is the part of IEEE arithmetic that the race logic can observe from
  finite inputs: a division by zero, a remainder by zero and the square root of a
  negative number do not fail, they yield \<open>Infinity\<close>, \<open>-Infinity\<close> or \<open>NaN\<close>, and
  these values then flow through every later operation and make every comparison with
  \<open>NaN\<close> false. Fields that are only ever assigned finite values are \<^typ>\<open>real\<close>;
  fields that can receive the result of a division, a remainder or a square root are
  \<open>jsnum\<close>.
\<close>

datatype jsnum = Num real | PosInf | NegInf | NaN

fun js_finite :: "jsnum \<Rightarrow> bool" where
  "js_finite (Num r) = True"
| "js_finite PosInf = False"
| "js_finite NegInf = False"
| "js_finite NaN = False"

fun js_neg :: "jsnum \<Rightarrow> jsnum" where
  "js_neg (Num r) = Num (- r)"
| "js_neg PosInf = NegInf"
| "js_neg NegInf = PosInf"
| "js_neg NaN = NaN"

fun js_add :: "jsnum \<Rightarrow> jsnum \<Rightarrow> jsnum" where
  "js_add (Num a) (Num b) = Num (a + b)"
| "js_add NaN b = NaN"
| "js_add a NaN = NaN"
| "js_add PosInf NegInf = NaN"
| "js_add NegInf PosInf = NaN"
| "js_add PosInf b = PosInf"
| "js_add NegInf b = NegInf"
| "js_add a PosInf = PosInf"
| "js_add a NegInf = NegInf"

definition js_sub :: "jsnum \<Rightarrow> jsnum \<Rightarrow> jsnum" where
  "js_sub a b = js_add a (js_neg b)"

text \<open>The infinity whose sign is the sign of \<open>r\<close> (\<open>r\<close> is not zero where it is used).\<close>

definition js_inf :: "real \<Rightarrow> jsnum" where
  "js_inf r = (if 0 < r then PosInf else NegInf)"

fun js_mul :: "jsnum \<Rightarrow> jsnum \<Rightarrow> jsnum" where
  "js_mul (Num a) (Num b) = Num (a * b)"
| "js_mul NaN b = NaN"
| "js_mul a NaN = NaN"
| "js_mul PosInf (Num b) = (if b = 0 then NaN else js_inf b)"
| "js_mul NegInf (Num b) = (if b = 0 then NaN else js_inf (- b))"
| "js_mul (Num a) PosInf = (if a = 0 then NaN else js_inf a)"
| "js_mul (Num a) NegInf = (if a = 0 then NaN else js_inf (- a))"
| "js_mul PosInf PosInf = PosInf"
| "js_mul PosInf NegInf = NegInf"
| "js_mul NegInf PosInf = NegInf"
| "js_mul NegInf NegInf = PosInf"

text \<open>
  Division: a finite number divided by zero is \<open>NaN\<close> when it is zero itself and an
  infinity otherwise (the zero divisor is taken as \<open>+0\<close>).
\<close>

fun js_div :: "jsnum \<Rightarrow> jsnum \<Rightarrow> jsnum" where
  "js_div (Num a) (Num b) =
     (if b \<noteq> 0 then Num (a / b) else if a = 0 then NaN else js_inf a)"
| "js_div NaN b = NaN"
| "js_div a NaN = NaN"
| "js_div (Num a) PosInf = Num 0"
| "js_div (Num a) NegInf = Num 0"
| "js_div PosInf (Num b) = (if 0 \<le> b then PosInf else NegInf)"
| "js_div NegInf (Num b) = (if 0 \<le> b then NegInf else PosInf)"
| "js_div PosInf b = NaN"
| "js_div NegInf b = NaN"

text \<open>
  The remainder operator \<open>%\<close> truncates the quotient towards zero, so the result has the
  sign of the dividend; a zero divisor or an infinite dividend gives \<open>NaN\<close>.
\<close>

definition js_trunc :: "real \<Rightarrow> real" where
  "js_trunc q = (if 0 \<le> q then of_int \<lfloor>q\<rfloor> else of_int \<lceil>q\<rceil>)"

fun js_rem :: "jsnum \<Rightarrow> jsnum \<Rightarrow> jsnum" where
  "js_rem (Num a) (Num b) = (if b = 0 then NaN else Num (a - b * js_trunc (a / b)))"
| "js_rem (Num a) PosInf = Num a"
| "js_rem (Num a) NegInf = Num a"
| "js_rem a b = NaN"

fun js_sqrt :: "jsnum \<Rightarrow> jsnum" where
  "js_sqrt (Num r) = (if r < 0 then NaN else Num (sqrt r))"
| "js_sqrt PosInf = PosInf"
| "js_sqrt NegInf = NaN"
| "js_sqrt NaN = NaN"

fun js_cos :: "jsnum \<Rightarrow> jsnum" where
  "js_cos (Num r) = Num (cos r)"
| "js_cos a = NaN"

fun js_sin :: "jsnum \<Rightarrow> jsnum" where
  "js_sin (Num r) = Num (sin r)"
| "js_sin a = NaN"

text \<open>Comparisons: every comparison with \<open>NaN\<close> is false.\<close>

fun js_lt :: "jsnum \<Rightarrow> jsnum \<Rightarrow> bool" where
  "js_lt (Num a) (Num b) = (a < b)"
| "js_lt NaN b = False"
| "js_lt a NaN = False"
| "js_lt PosInf b = False"
| "js_lt a NegInf = False"
| "js_lt NegInf b = True"
| "js_lt a PosInf = True"

fun js_le :: "jsnum \<Rightarrow> jsnum \<Rightarrow> bool" where
  "js_le (Num a) (Num b) = (a \<le> b)"
| "js_le NaN b = False"
| "js_le a NaN = False"
| "js_le NegInf b = True"
| "js_le a PosInf = True"
| "js_le PosInf b = False"
| "js_le a NegInf = False"

definition js_gt :: "jsnum \<Rightarrow> jsnum \<Rightarrow> bool" where
  "js_gt a b = js_lt b a"

definition js_ge :: "jsnum \<Rightarrow> jsnum \<Rightarrow> bool" where
  "js_ge a b = js_le b a"

section \<open>The track (public/track.js)\<close>

text \<open>
  The canvas is read for its size only. Colours, textures and drawing are left out; the
  camera scroll is kept because \<open>update\<close> computes it.
\<close>

record Canvas =
  width :: real
  height :: real

record Track =
  canvas :: Canvas
  centerX :: real
  centerY :: real
  outerRadiusX :: real
  outerRadiusY :: real
  trackWidth :: real
  innerRadiusX :: real
  innerRadiusY :: real
  scrollX :: jsnum
  scrollY :: jsnum
  totalLength :: jsnum
  laneCount :: int
  laneSpacing :: real

text \<open>
  \<open>calculateTrackLength\<close>: Ramanujan's approximation of the perimeter of the centerline
  ellipse. The quotient \<open>h\<close> is a division by \<open>(a + b)\<^sup>2\<close> and the formula takes the
  square root of \<open>4 - 3h\<close>, so the result is a \<open>jsnum\<close>.
\<close>

definition calculateTrackLength :: "'a Track_scheme \<Rightarrow> jsnum" where
  "calculateTrackLength t =
     (let a = outerRadiusX t - trackWidth t / 2;
          b = outerRadiusY t - trackWidth t / 2;
          h = js_div (Num ((a - b) ^ 2)) (Num ((a + b) ^ 2))
      in js_mul (Num (pi * (a + b)))
           (js_add (Num 1)
              (js_div (js_mul (Num 3) h)
                 (js_add (Num 10) (js_sqrt (js_sub (Num 4) (js_mul (Num 3) h)))))))"

definition setupTrack :: "'a Track_scheme \<Rightarrow> 'a Track_scheme" where
  "setupTrack t =
     (let t1 = t\<lparr>laneCount := 6\<rparr>
      in t1\<lparr>laneSpacing := trackWidth t1 / of_int (laneCount t1)\<rparr>)"

text \<open>
  The constructor. Every field is assigned in the order of the source; \<open>totalLength\<close>
  is computed from the radii just assigned, then \<open>setupTrack\<close> sets the lanes.
\<close>

definition Track_new :: "Canvas \<Rightarrow> Track" where
  "Track_new cv =
     (let t0 = \<lparr>canvas = cv, centerX = width cv / 2, centerY = height cv / 2,
                outerRadiusX = width cv * 0.4, outerRadiusY = height cv * 0.35,
                trackWidth = 120,
                innerRadiusX = width cv * 0.4 - 120, innerRadiusY = height cv * 0.35 - 120,
                scrollX = Num 0, scrollY = Num 0,
                totalLength = NaN, laneCount = 0, laneSpacing = 0\<rparr>;
          t1 = t0\<lparr>totalLength := calculateTrackLength t0\<rparr>
      in setupTrack t1)"

text \<open>\<open>handleResize\<close> of public/track.js: the radii follow the canvas; nothing else is assigned.\<close>

definition handleResize :: "Canvas \<Rightarrow> Track \<Rightarrow> Track" where
  "handleResize cv t =
     (let t1 = t\<lparr>canvas := cv\<rparr>;
          t2 = t1\<lparr>centerX := width cv / 2\<rparr>;
          t3 = t2\<lparr>centerY := height cv / 2\<rparr>;
          t4 = t3\<lparr>outerRadiusX := width cv * 0.4\<rparr>;
          t5 = t4\<lparr>outerRadiusY := height cv * 0.35\<rparr>;
          t6 = t5\<lparr>innerRadiusX := outerRadiusX t5 - trackWidth t5\<rparr>
      in t6\<lparr>innerRadiusY := outerRadiusY t6 - trackWidth t6\<rparr>)"

text \<open>
  \<open>update\<close> and \<open>updateScrolling\<close>: the follow target is \<open>null\<close> (\<open>None\<close>) or an object
  whose \<open>x\<close> and \<open>y\<close> are read.
\<close>

definition updateScrolling :: "jsnum \<times> jsnum \<Rightarrow> 'a Track_scheme \<Rightarrow> 'a Track_scheme" where
  "updateScrolling target t =
     (let desiredScrollX = js_sub (fst target) (Num (width (canvas t) / 2));
          desiredScrollY = js_sub (snd target) (Num (height (canvas t) / 2));
          lerpFactor = Num 0.1;
          t1 = t\<lparr>scrollX := js_add (scrollX t)
                   (js_mul (js_sub desiredScrollX (scrollX t)) lerpFactor)\<rparr>
      in t1\<lparr>scrollY := js_add (scrollY t1)
                   (js_mul (js_sub desiredScrollY (scrollY t1)) lerpFactor)\<rparr>)"

definition Track_update :: "real \<Rightarrow> (jsnum \<times> jsnum) option \<Rightarrow> 'a Track_scheme \<Rightarrow> 'a Track_scheme" where
  "Track_update deltaTime followTarget t =
     (case followTarget of None \<Rightarrow> t | Some target \<Rightarrow> updateScrolling target t)"

record Position =
  px :: jsnum
  py :: jsnum
  pangle :: jsnum

text \<open>
  \<open>getTrackPosition\<close>: the distance is reduced modulo the track length and divided by
  it, neither operation is guarded; the angle returned is the parameter angle of the
  oval, started at the bottom.
\<close>

definition getTrackPosition :: "'a Track_scheme \<Rightarrow> real \<Rightarrow> int \<Rightarrow> Position" where
  "getTrackPosition t distance laneNumber =
     (let normalizedDistance = js_div (js_rem (Num distance) (totalLength t)) (totalLength t);
          angle = js_add (js_mul (js_mul normalizedDistance (Num 2)) (Num pi)) (Num (pi / 2));
          radiusX = innerRadiusX t + of_int laneNumber * laneSpacing t;
          radiusY = innerRadiusY t + of_int laneNumber * laneSpacing t
      in \<lparr>px = js_add (Num (centerX t)) (js_mul (Num radiusX) (js_cos angle)),
          py = js_add (Num (centerY t)) (js_mul (Num radiusY) (js_sin angle)),
          pangle = angle\<rparr>)"

section \<open>The track with perspective (the second public/track.js)\<close>

text \<open>
  The sources hold a second version of the track class: a flatter oval whose top half is
  flattened for perspective, and whose \<open>handleResize\<close> recomputes the track length.
  Its texture patterns are drawing data and are left out.
\<close>

record TrackRetro = Track +
  perspectiveFlattening :: real
  railWidth :: real
  railPostSpacing :: real

definition TrackRetro_new :: "Canvas \<Rightarrow> TrackRetro" where
  "TrackRetro_new cv =
     (let t0 = \<lparr>canvas = cv, centerX = width cv / 2, centerY = height cv / 2,
                outerRadiusX = width cv * 0.45, outerRadiusY = height cv * 0.30,
                trackWidth = 140,
                innerRadiusX = width cv * 0.45 - 140, innerRadiusY = height cv * 0.30 - 140,
                scrollX = Num 0, scrollY = Num 0,
                totalLength = NaN, laneCount = 0, laneSpacing = 0,
                perspectiveFlattening = 0.85, railWidth = 8, railPostSpacing = 80\<rparr>;
          t1 = t0\<lparr>totalLength := calculateTrackLength t0\<rparr>
      in setupTrack t1)"

definition handleResize_retro :: "Canvas \<Rightarrow> TrackRetro \<Rightarrow> TrackRetro" where
  "handleResize_retro cv t =
     (let t1 = t\<lparr>canvas := cv\<rparr>;
          t2 = t1\<lparr>centerX := width cv / 2\<rparr>;
          t3 = t2\<lparr>centerY := height cv / 2\<rparr>;
          t4 = t3\<lparr>outerRadiusX := width cv * 0.45\<rparr>;
          t5 = t4\<lparr>outerRadiusY := height cv * 0.30\<rparr>;
          t6 = t5\<lparr>innerRadiusX := outerRadiusX t5 - trackWidth t5\<rparr>;
          t7 = t6\<lparr>innerRadiusY := outerRadiusY t6 - trackWidth t6\<rparr>
      in t7\<lparr>totalLength := calculateTrackLength t7\<rparr>)"

definition getTrackPosition_retro :: "TrackRetro \<Rightarrow> real \<Rightarrow> int \<Rightarrow> Position" where
  "getTrackPosition_retro t distance laneNumber =
     (let normalizedDistance = js_div (js_rem (Num distance) (totalLength t)) (totalLength t);
          angle = js_add (js_mul (js_mul normalizedDistance (Num 2)) (Num pi)) (Num (pi / 2));
          radiusX = innerRadiusX t + of_int laneNumber * laneSpacing t;
          radiusY = innerRadiusY t + of_int laneNumber * laneSpacing t;
          yRadius =
            (if js_gt angle (Num (pi / 2)) \<and> js_lt angle (Num (pi * 3 / 2)) then
               (let flattenFactor =
                      js_mul (js_sin (js_sub angle (Num (pi / 2))))
                        (Num (1 - perspectiveFlattening t))
                in js_mul (Num radiusY) (js_add (Num (perspectiveFlattening t)) flattenFactor))
             else Num radiusY)
      in \<lparr>px = js_add (Num (centerX t)) (js_mul (Num radiusX) (js_cos angle)),
          py = js_add (Num (centerY t)) (js_mul yRadius (js_sin angle)),
          pangle = angle\<rparr>)"

section \<open>The racer (public/horse.js)\<close>

record InputState =
  forward :: bool
  boost :: bool

text \<open>
  A horse holds a reference to the track object it shares with the game; the functions
  below take that track as their first argument. The sprite size is left out.
\<close>

record PlayerHorse =
  laneNumber :: int
  distance :: real
  xpos :: jsnum
  ypos :: jsnum
  angle :: jsnum
  speed :: real
  maxSpeed :: real
  boostMaxSpeed :: real
  acceleration :: real
  deceleration :: real
  stamina :: real
  maxStamina :: real
  staminaDrainRate :: real
  staminaRecoveryRate :: real
  finished :: bool
  finishLineY :: jsnum
  color :: string

definition reset :: "'t Track_scheme \<Rightarrow> 'a PlayerHorse_scheme \<Rightarrow> 'a PlayerHorse_scheme" where
  "reset t h =
     (let h1 = h\<lparr>distance := 0, speed := 0, stamina := maxStamina h, finished := False\<rparr>;
          startPosition = getTrackPosition t 0 (laneNumber h1);
          h2 = h1\<lparr>xpos := px startPosition, ypos := py startPosition,
                  angle := pangle startPosition\<rparr>;
          finishPosition = getTrackPosition t 0 (laneNumber h2)
      in h2\<lparr>finishLineY := py finishPosition\<rparr>)"

text \<open>The constructor stores the lane it is given, sets the constants and calls \<open>reset\<close>.\<close>

definition PlayerHorse_new :: "'t Track_scheme \<Rightarrow> int \<Rightarrow> PlayerHorse" where
  "PlayerHorse_new t lane =
     reset t \<lparr>laneNumber = lane, distance = 0, xpos = Num 0, ypos = Num 0, angle = Num 0,
              speed = 0, maxSpeed = 500, boostMaxSpeed = 700, acceleration = 200,
              deceleration = 300, stamina = 100, maxStamina = 100, staminaDrainRate = 25,
              staminaRecoveryRate = 10, finished = False, finishLineY = Num 0,
              color = ''#FF5733''\<rparr>"

definition handleInput :: "real \<Rightarrow> InputState \<Rightarrow> 'a PlayerHorse_scheme \<Rightarrow> 'a PlayerHorse_scheme" where
  "handleInput deltaTime inputState h =
     (let h1 =
        (if forward inputState then
           (let currentMaxSpeed =
                  (if boost inputState \<and> 0 < stamina h then boostMaxSpeed h else maxSpeed h);
                ha = h\<lparr>speed := speed h + acceleration h * deltaTime\<rparr>;
                hb = (if currentMaxSpeed < speed ha then ha\<lparr>speed := currentMaxSpeed\<rparr> else ha)
            in if boost inputState \<and> 0 < stamina hb then
                 (let hc = hb\<lparr>stamina := stamina hb - staminaDrainRate hb * deltaTime\<rparr>
                  in if stamina hc < 0 then hc\<lparr>stamina := 0\<rparr> else hc)
               else hb)
         else
           (let ha = h\<lparr>speed := speed h - deceleration h * deltaTime\<rparr>;
                hb = (if speed ha < 0 then ha\<lparr>speed := 0\<rparr> else ha)
            in if \<not> boost inputState then
                 (let hc = hb\<lparr>stamina := stamina hb + staminaRecoveryRate hb * deltaTime\<rparr>
                  in if maxStamina hc < stamina hc then hc\<lparr>stamina := maxStamina hc\<rparr> else hc)
               else hb))
      in if \<not> boost inputState then
           (let h2 = h1\<lparr>stamina := stamina h1 + staminaRecoveryRate h1 * deltaTime\<rparr>
            in if maxStamina h2 < stamina h2 then h2\<lparr>stamina := maxStamina h2\<rparr> else h2)
         else h1)"

definition updatePosition :: "'t Track_scheme \<Rightarrow> real \<Rightarrow> 'a PlayerHorse_scheme \<Rightarrow> 'a PlayerHorse_scheme" where
  "updatePosition t deltaTime h =
     (let h1 = h\<lparr>distance := distance h + speed h * deltaTime\<rparr>;
          position = getTrackPosition t (distance h1) (laneNumber h1)
      in h1\<lparr>xpos := px position, ypos := py position, angle := pangle position\<rparr>)"

definition checkRaceCompletion :: "'t Track_scheme \<Rightarrow> 'a PlayerHorse_scheme \<Rightarrow> 'a PlayerHorse_scheme" where
  "checkRaceCompletion t h =
     (if js_ge (Num (distance h)) (totalLength t) then h\<lparr>finished := True\<rparr> else h)"

definition update :: "'t Track_scheme \<Rightarrow> real \<Rightarrow> InputState \<Rightarrow> 'a PlayerHorse_scheme \<Rightarrow> 'a PlayerHorse_scheme" where
  "update t deltaTime inputState h =
     (if finished h then h
      else checkRaceCompletion t (updatePosition t deltaTime (handleInput deltaTime inputState h)))"

definition trackProgress :: "'t Track_scheme \<Rightarrow> 'a PlayerHorse_scheme \<Rightarrow> jsnum" where
  "trackProgress t h = js_div (Num (distance h)) (totalLength t)"

definition hasFinishedRace :: "'a PlayerHorse_scheme \<Rightarrow> bool" where
  "hasFinishedRace h = finished h"

definition changeLane :: "'t Track_scheme \<Rightarrow> int \<Rightarrow> 'a PlayerHorse_scheme \<Rightarrow> 'a PlayerHorse_scheme" where
  "changeLane t newLane h =
     (let h1 = h\<lparr>laneNumber := newLane\<rparr>;
          position = getTrackPosition t (distance h1) (laneNumber h1)
      in h1\<lparr>xpos := px position, ypos := py position\<rparr>)"

section \<open>The opponents (public/ai.js)\<close>

text \<open>
  \<open>Math.random()\<close> is an input of the model: the constructor takes the seven values it
  draws, in the order of the source, as a function from the number of the draw.
\<close>

record AIHorse = PlayerHorse +
  difficulty :: real
  boostProbability :: real
  boostDuration :: real
  boostTimer :: real
  isBoosting :: bool
  strategicBoostPoints :: "real list"
  usedStrategicBoosts :: "bool list"
  conserveStaminaThreshold :: real

text \<open>
  \<open>AIHorse.reset\<close>: the racer's reset, then the timers. The profile constants are not
  assigned.
\<close>

definition AIHorse_reset :: "'t Track_scheme \<Rightarrow> AIHorse \<Rightarrow> AIHorse" where
  "AIHorse_reset t h =
     (reset t h)\<lparr>isBoosting := False, boostTimer := 0, usedStrategicBoosts := [False, False]\<rparr>"

definition AIHorse_new :: "'t Track_scheme \<Rightarrow> int \<Rightarrow> string \<Rightarrow> real \<Rightarrow> (nat \<Rightarrow> real) \<Rightarrow> AIHorse" where
  "AIHorse_new t lane col diff random =
     (let base = PlayerHorse_new t lane;
          mx = 400 + random 0 * 200 * diff
      in PlayerHorse.extend
           (base\<lparr>color := col, maxSpeed := mx, boostMaxSpeed := mx * 1.4,
                 acceleration := 180 + random 1 * 40 * diff\<rparr>)
           (AIHorse.fields diff
              (0.01 + random 2 * 0.03 * diff)
              (1 + random 3 * 3)
              0 False
              [0.3 + random 4 * 0.1, 0.7 + random 5 * 0.1]
              [False, False]
              (30 + random 6 * 40)))"

text \<open>
  Reading and writing \<open>usedStrategicBoosts[i]\<close>: an index past the end reads
  \<open>undefined\<close>, which \<open>!\<close> turns into \<open>true\<close>, and a write there extends the array.
\<close>

definition js_truthy_at :: "bool list \<Rightarrow> nat \<Rightarrow> bool" where
  "js_truthy_at xs i = (i < length xs \<and> xs ! i)"

definition js_set_at :: "bool list \<Rightarrow> nat \<Rightarrow> bool \<Rightarrow> bool list" where
  "js_set_at xs i v =
     (if i < length xs then xs[i := v] else xs @ replicate (i - length xs) False @ [v])"

definition strategicWindow :: "'t Track_scheme \<Rightarrow> AIHorse \<Rightarrow> nat \<Rightarrow> bool" where
  "strategicWindow t h i =
     (\<not> js_truthy_at (usedStrategicBoosts h) i \<and>
      js_ge (trackProgress t h) (Num (strategicBoostPoints h ! i)) \<and>
      js_le (trackProgress t h) (Num (strategicBoostPoints h ! i + 0.1)) \<and>
      40 < stamina h)"

text \<open>
  \<open>determineInputState\<close> returns the input it synthesises and the horse with its timers
  updated. \<open>random\<close> is the value \<open>Math.random()\<close> returns if this call draws one. The
  \<open>for\<close> loop leaves at the first index whose window is open.
\<close>

definition determineInputState :: "'t Track_scheme \<Rightarrow> real \<Rightarrow> real \<Rightarrow> AIHorse \<Rightarrow> InputState \<times> AIHorse" where
  "determineInputState t deltaTime random h =
     (let inputState0 = \<lparr>forward = True, boost = False\<rparr>;
          (inputState1, h1) =
            (if isBoosting h then
               (let ha = h\<lparr>boostTimer := boostTimer h - deltaTime\<rparr>
                in if boostTimer ha \<le> 0 then (inputState0, ha\<lparr>isBoosting := False\<rparr>)
                   else (inputState0\<lparr>boost := True\<rparr>, ha))
             else (inputState0, h));
          nearFinish = js_gt (trackProgress t h1) (Num 0.85)
      in if stamina h1 < conserveStaminaThreshold h1 \<and> \<not> nearFinish then (inputState1, h1)
         else
           (case List.find (strategicWindow t h1) [0 ..< length (strategicBoostPoints h1)] of
              Some i \<Rightarrow>
                (inputState1\<lparr>boost := True\<rparr>,
                 h1\<lparr>isBoosting := True, boostTimer := boostDuration h1,
                    usedStrategicBoosts := js_set_at (usedStrategicBoosts h1) i True\<rparr>)
            | None \<Rightarrow>
                (let (inputState2, h2) =
                       (if \<not> isBoosting h1 \<and> random < boostProbability h1 * deltaTime * 60 \<and>
                           30 < stamina h1
                        then (inputState1\<lparr>boost := True\<rparr>,
                              h1\<lparr>isBoosting := True, boostTimer := boostDuration h1\<rparr>)
                        else (inputState1, h1))
                 in if nearFinish \<and> 20 < stamina h2 then (inputState2\<lparr>boost := True\<rparr>, h2)
                    else (inputState2, h2))))"

definition AIHorse_update :: "'t Track_scheme \<Rightarrow> real \<Rightarrow> real \<Rightarrow> AIHorse \<Rightarrow> AIHorse" where
  "AIHorse_update t deltaTime random h =
     (let (inputState, h1) = determineInputState t deltaTime random h
      in update t deltaTime inputState h1)"

record AIManager =
  aiCount :: nat
  aiHorses :: "AIHorse list"
  colors :: "string list"

definition horseColors :: "string list" where
  "horseColors = [''#3498DB'', ''#2ECC71'', ''#9B59B6'', ''#F1C40F'', ''#E74C3C'',
                  ''#1ABC9C'', ''#D35400'']"

text \<open>
  \<open>createAIHorses\<close>: horse \<open>i\<close> gets lane \<open>i + 1\<close>, moved up by one from lane 3 on, and
  the seven random draws of its constructor.
\<close>

definition aiLane :: "nat \<Rightarrow> int" where
  "aiLane i = (let lane = int i + 1 in if 3 \<le> lane then lane + 1 else lane)"

definition createAIHorses :: "'t Track_scheme \<Rightarrow> (nat \<Rightarrow> real) \<Rightarrow> AIManager \<Rightarrow> AIManager" where
  "createAIHorses t random m =
     m\<lparr>aiHorses :=
         map (\<lambda>i. AIHorse_new t (aiLane i) (colors m ! (i mod length (colors m)))
                    (0.8 + real i * 0.1) (\<lambda>k. random (7 * i + k)))
           [0 ..< aiCount m]\<rparr>"

definition AIManager_new :: "'t Track_scheme \<Rightarrow> nat \<Rightarrow> (nat \<Rightarrow> real) \<Rightarrow> AIManager" where
  "AIManager_new t n random =
     createAIHorses t random \<lparr>aiCount = n, aiHorses = [], colors = horseColors\<rparr>"

text \<open>Horse \<open>i\<close> of the list draws \<open>random i\<close> if its decision draws a number.\<close>

definition AIManager_update :: "'t Track_scheme \<Rightarrow> real \<Rightarrow> (nat \<Rightarrow> real) \<Rightarrow> AIManager \<Rightarrow> AIManager" where
  "AIManager_update t deltaTime random m =
     m\<lparr>aiHorses :=
         map (\<lambda>(i, horse). AIHorse_update t deltaTime (random i) horse)
           (zip [0 ..< length (aiHorses m)] (aiHorses m))\<rparr>"

definition AIManager_reset :: "'t Track_scheme \<Rightarrow> AIManager \<Rightarrow> AIManager" where
  "AIManager_reset t m = m\<lparr>aiHorses := map (AIHorse_reset t) (aiHorses m)\<rparr>"

definition allFinished :: "AIManager \<Rightarrow> bool" where
  "allFinished m = list_all hasFinishedRace (aiHorses m)"

section \<open>The race loop (public/raceLoop.js)\<close>

datatype GAME_STATE = LOADING | MENU | COUNTDOWN | RACING | FINISHED

record Entry =
  name :: string
  entryColor :: string
  progress :: jsnum

record Placement = Entry +
  place :: nat

text \<open>The decimal digits of an array index, for the template string \<open>AI ${index}\<close>.\<close>

fun digits :: "nat \<Rightarrow> string" where
  "digits n =
     (if n < 10 then [''0123456789'' ! n]
      else digits (n div 10) @ [''0123456789'' ! (n mod 10)])"

declare digits.simps [simp del]

text \<open>
  \<open>Array.prototype.sort\<close> with a comparator is a stable sort: an element moves behind
  another one only where the comparator is positive, and a comparator value of \<open>NaN\<close>
  counts as zero. For a consistent comparator every stable sort returns the same list; it
  is modelled as an insertion sort. (For an inconsistent comparator, which needs a
  non-finite progress here, the language leaves the order to the implementation.)
\<close>

fun js_insert :: "('a \<Rightarrow> 'a \<Rightarrow> jsnum) \<Rightarrow> 'a \<Rightarrow> 'a list \<Rightarrow> 'a list" where
  "js_insert cmp e [] = [e]"
| "js_insert cmp e (y # ys) =
     (if js_gt (cmp e y) (Num 0) then y # js_insert cmp e ys else e # y # ys)"

definition js_sort :: "('a \<Rightarrow> 'a \<Rightarrow> jsnum) \<Rightarrow> 'a list \<Rightarrow> 'a list" where
  "js_sort cmp xs = foldr (js_insert cmp) xs []"

text \<open>
  The ranking computed in \<open>update\<close> when the player has finished. \<open>allHorses\<close> is the
  player followed by the opponents, so the player is the horse at index 0 and the only
  one that is identical to \<open>this.playerHorse\<close>.
\<close>

definition placementEntry :: "'t Track_scheme \<Rightarrow> nat \<times> PlayerHorse \<Rightarrow> Entry" where
  "placementEntry t = (\<lambda>(index, horse).
     \<lparr>name = (if index = 0 then ''You'' else ''AI '' @ digits index),
      entryColor = color horse,
      progress = trackProgress t horse\<rparr>)"

definition computePlacements :: "'t Track_scheme \<Rightarrow> PlayerHorse \<Rightarrow> AIHorse list \<Rightarrow> Placement list" where
  "computePlacements t player ais =
     (let allHorses = player # map PlayerHorse.truncate ais;
          entries = map (placementEntry t) (zip [0 ..< length allHorses] allHorses);
          sortedEntries = js_sort (\<lambda>a b. js_sub (progress b) (progress a)) entries
      in map (\<lambda>(i, entry). Entry.extend entry (Placement.fields (i + 1)))
           (zip [0 ..< length sortedEntries] sortedEntries))"

text \<open>
  The game. The input handler is outside the model: each \<open>update\<close> takes the input
  state it would read. The track's follow target is the player horse, set by the
  constructor and never changed.
\<close>

record RaceGame =
  gameCanvas :: Canvas
  gameState :: GAME_STATE
  track :: Track
  playerHorse :: PlayerHorse
  aiManager :: AIManager
  resultsVisible :: bool
  finalPlacements :: "Placement list"
  lastTimestamp :: real
  countdownTime :: real
  countdownTimer :: real

definition RaceGame_reset :: "RaceGame \<Rightarrow> RaceGame" where
  "RaceGame_reset g =
     (let g1 = g\<lparr>track := handleResize (gameCanvas g) (track g)\<rparr>;
          g2 = g1\<lparr>playerHorse := reset (track g1) (playerHorse g1)\<rparr>;
          g3 = g2\<lparr>aiManager := AIManager_reset (track g2) (aiManager g2)\<rparr>
      in g3\<lparr>gameState := MENU, countdownTimer := countdownTime g3,
            finalPlacements := [], resultsVisible := False\<rparr>)"

definition RaceGame_new :: "Canvas \<Rightarrow> (nat \<Rightarrow> real) \<Rightarrow> RaceGame" where
  "RaceGame_new cv random =
     (let t = Track_new cv;
          g = \<lparr>gameCanvas = cv, gameState = LOADING, track = t,
               playerHorse = PlayerHorse_new t 3,
               aiManager = AIManager_new t 5 random,
               resultsVisible = False, finalPlacements = [],
               lastTimestamp = 0, countdownTime = 3, countdownTimer = 3\<rparr>
      in (RaceGame_reset g)\<lparr>gameState := MENU\<rparr>)"

definition RaceGame_handleResize :: "Canvas \<Rightarrow> RaceGame \<Rightarrow> RaceGame" where
  "RaceGame_handleResize window g =
     (let g1 = g\<lparr>gameCanvas := window\<rparr>
      in g1\<lparr>track := handleResize (gameCanvas g1) (track g1)\<rparr>)"

definition RaceGame_update :: "real \<Rightarrow> InputState \<Rightarrow> (nat \<Rightarrow> real) \<Rightarrow> RaceGame \<Rightarrow> RaceGame" where
  "RaceGame_update deltaTime inputState random g =
     (case gameState g of
        LOADING \<Rightarrow> g\<lparr>gameState := MENU\<rparr>
      | MENU \<Rightarrow> (if forward inputState then g\<lparr>gameState := COUNTDOWN\<rparr> else g)
      | COUNTDOWN \<Rightarrow>
          (let g1 = g\<lparr>countdownTimer := countdownTimer g - deltaTime\<rparr>
           in if countdownTimer g1 \<le> 0 then g1\<lparr>gameState := RACING\<rparr> else g1)
      | RACING \<Rightarrow>
          (let g1 = g\<lparr>track := Track_update deltaTime
                          (Some (xpos (playerHorse g), ypos (playerHorse g))) (track g)\<rparr>;
               g2 = g1\<lparr>playerHorse := update (track g1) deltaTime inputState (playerHorse g1)\<rparr>;
               g3 = g2\<lparr>aiManager := AIManager_update (track g2) deltaTime random (aiManager g2)\<rparr>;
               g4 = (if hasFinishedRace (playerHorse g3) \<and> \<not> resultsVisible g3 then
                       g3\<lparr>finalPlacements :=
                            computePlacements (track g3) (playerHorse g3) (aiHorses (aiManager g3)),
                          resultsVisible := True, gameState := FINISHED\<rparr>
                     else g3)
           in if allFinished (aiManager g4) \<and> hasFinishedRace (playerHorse g4)
              then g4\<lparr>gameState := FINISHED\<rparr> else g4)
      | FINISHED \<Rightarrow>
          (if forward inputState \<and> resultsVisible g
           then (RaceGame_reset g)\<lparr>gameState := COUNTDOWN\<rparr> else g))"

text \<open>One frame: the elapsed time is capped at a tenth of a second before the update.\<close>

definition gameLoop :: "real \<Rightarrow> InputState \<Rightarrow> (nat \<Rightarrow> real) \<Rightarrow> RaceGame \<Rightarrow> RaceGame" where
  "gameLoop timestamp inputState random g =
     (let deltaTime = (timestamp - lastTimestamp g) / 1000;
          g1 = g\<lparr>lastTimestamp := timestamp\<rparr>;
          cappedDeltaTime = min deltaTime 0.1
      in RaceGame_update cappedDeltaTime inputState random g1)"

section \<open>The notions of the specification\<close>

text \<open>
  The specification speaks of the Ramanujan perimeter of the centerline ellipse and of
  the tangent of the parametric oval. These definitions state them over the reals, to
  compare the code with. The centerline semi-axes are the outer radii less half the
  track width; the oval of a lane is the curve \<open>u \<mapsto> (ovalX u, ovalY u)\<close> with the radii
  \<open>getTrackPosition\<close> computes for that lane.
\<close>

definition ramanujan :: "real \<Rightarrow> real \<Rightarrow> real" where
  "ramanujan a b =
     (let h = (a - b) ^ 2 / (a + b) ^ 2
      in pi * (a + b) * (1 + 3 * h / (10 + sqrt (4 - 3 * h))))"

definition centerlineX :: "'a Track_scheme \<Rightarrow> real" where
  "centerlineX t = outerRadiusX t - trackWidth t / 2"

definition centerlineY :: "'a Track_scheme \<Rightarrow> real" where
  "centerlineY t = outerRadiusY t - trackWidth t / 2"

definition laneRadiusX :: "'a Track_scheme \<Rightarrow> int \<Rightarrow> real" where
  "laneRadiusX t lane = innerRadiusX t + of_int lane * laneSpacing t"

definition laneRadiusY :: "'a Track_scheme \<Rightarrow> int \<Rightarrow> real" where
  "laneRadiusY t lane = innerRadiusY t + of_int lane * laneSpacing t"

definition ovalX :: "'a Track_scheme \<Rightarrow> int \<Rightarrow> real \<Rightarrow> real" where
  "ovalX t lane u = centerX t + laneRadiusX t lane * cos u"

definition ovalY :: "'a Track_scheme \<Rightarrow> int \<Rightarrow> real \<Rightarrow> real" where
  "ovalY t lane u = centerY t + laneRadiusY t lane * sin u"

text \<open>The derivative of the oval at the parameter \<open>u\<close> (lemma \<open>ovalTangent_is_derivative\<close>).\<close>

definition ovalTangent :: "'a Track_scheme \<Rightarrow> int \<Rightarrow> real \<Rightarrow> real \<times> real" where
  "ovalTangent t lane u = (- laneRadiusX t lane * sin u, laneRadiusY t lane * cos u)"

text \<open>
  A vector has the direction of the angle \<open>a\<close> when it is a positive multiple of
  \<open>(cos a, sin a)\<close>: its cross product with that unit vector is zero and its scalar
  product with it is positive.
\<close>

definition points_along :: "real \<times> real \<Rightarrow> real \<Rightarrow> bool" where
  "points_along v a =
     (fst v * sin a - snd v * cos a = 0 \<and> 0 < fst v * cos a + snd v * sin a)"

text \<open>The angle \<open>getTrackPosition\<close> computes for the distance \<open>d\<close> on a track of length \<open>L\<close>.\<close>

abbreviation lapAngle :: "real \<Rightarrow> real \<Rightarrow> real" where
  "lapAngle L d \<equiv> (d - L * js_trunc (d / L)) / L * 2 * pi + pi / 2"

section \<open>Abbreviations and the inputs of the examples\<close>

text \<open>
  A 700 by 800 canvas makes both outer radii 280, so the centerline is a circle of
  radius 220 and the track length is \<open>440\<pi>\<close>.
\<close>

abbreviation circleTrack :: Track where
  "circleTrack \<equiv> Track_new \<lparr>width = 700, height = 800\<rparr>"

abbreviation freshHorse :: PlayerHorse where
  "freshHorse \<equiv> PlayerHorse_new circleTrack 3"

abbreviation coast :: InputState where
  "coast \<equiv> \<lparr>forward = False, boost = False\<rparr>"

abbreviation cruise :: InputState where
  "cruise \<equiv> \<lparr>forward = True, boost = False\<rparr>"

abbreviation sprint :: InputState where
  "sprint \<equiv> \<lparr>forward = True, boost = True\<rparr>"

abbreviation byProgress :: "'a Entry_scheme \<Rightarrow> 'a Entry_scheme \<Rightarrow> jsnum" where
  "byProgress \<equiv> (\<lambda>a b. js_sub (progress b) (progress a))"

abbreviation ahead :: "'a Entry_scheme \<Rightarrow> 'a Entry_scheme \<Rightarrow> bool" where
  "ahead \<equiv> (\<lambda>a b. js_ge (progress a) (progress b))"

text \<open>A track of length 1000 and three racers at 1000, 950 and 1020.\<close>

abbreviation kiloTrack :: Track where
  "kiloTrack \<equiv> circleTrack\<lparr>totalLength := Num 1000\<rparr>"

abbreviation rival :: "int \<Rightarrow> real \<Rightarrow> AIHorse" where
  "rival lane d \<equiv> (AIHorse_new kiloTrack lane ''#3498DB'' 0.8 (\<lambda>k. 1/2))\<lparr>distance := d\<rparr>"

text \<open>A game in the finished state, with the results showing.\<close>

abbreviation finishedGame :: RaceGame where
  "finishedGame \<equiv>
     (RaceGame_new \<lparr>width = 700, height = 800\<rparr> (\<lambda>k. 1/2))
       \<lparr>gameState := FINISHED, resultsVisible := True,
        playerHorse := freshHorse\<lparr>distance := 1500, speed := 500, stamina := 20,
                                 finished := True\<rparr>,
        finalPlacements :=
          [\<lparr>name = ''You'', entryColor = ''#FF5733'', progress = Num 1, place = 1\<rparr>]\<rparr>"

section \<open>The motion model\<close>

lemma circle_track_length: "totalLength circleTrack = Num (440 * pi)"
  by (simp add: Track_new_def setupTrack_def calculateTrackLength_def Let_def js_sub_def)

lemma circle_track_fields:
  "centerX circleTrack = 350 \<and> centerY circleTrack = 400 \<and>
   innerRadiusX circleTrack = 160 \<and> innerRadiusY circleTrack = 160 \<and>
   laneCount circleTrack = 6 \<and> laneSpacing circleTrack = 20"
  by (simp add: Track_new_def setupTrack_def Let_def)

lemma PlayerHorse_new_fields:
  "speed (PlayerHorse_new t lane) = 0 \<and> stamina (PlayerHorse_new t lane) = 100 \<and>
   maxStamina (PlayerHorse_new t lane) = 100 \<and> maxSpeed (PlayerHorse_new t lane) = 500 \<and>
   boostMaxSpeed (PlayerHorse_new t lane) = 700 \<and> acceleration (PlayerHorse_new t lane) = 200 \<and>
   deceleration (PlayerHorse_new t lane) = 300 \<and> staminaDrainRate (PlayerHorse_new t lane) = 25 \<and>
   staminaRecoveryRate (PlayerHorse_new t lane) = 10 \<and> distance (PlayerHorse_new t lane) = 0 \<and>
   \<not> finished (PlayerHorse_new t lane) \<and> laneNumber (PlayerHorse_new t lane) = lane"
  by (simp add: PlayerHorse_new_def reset_def Let_def)

text \<open>\<open>handleInput\<close> assigns the speed and the stamina only.\<close>

lemma handleInput_constants:
  "maxSpeed (handleInput dt i h) = maxSpeed h \<and>
   boostMaxSpeed (handleInput dt i h) = boostMaxSpeed h \<and>
   acceleration (handleInput dt i h) = acceleration h \<and>
   deceleration (handleInput dt i h) = deceleration h \<and>
   maxStamina (handleInput dt i h) = maxStamina h \<and>
   staminaDrainRate (handleInput dt i h) = staminaDrainRate h \<and>
   staminaRecoveryRate (handleInput dt i h) = staminaRecoveryRate h \<and>
   laneNumber (handleInput dt i h) = laneNumber h \<and>
   distance (handleInput dt i h) = distance h \<and>
   finished (handleInput dt i h) = finished h"
  by (simp add: handleInput_def Let_def)

lemma handleInput_bounds:
  assumes "0 \<le> speed h" "0 \<le> stamina h" "stamina h \<le> maxStamina h" "0 \<le> dt"
    "0 \<le> acceleration h" "0 \<le> maxSpeed h" "0 \<le> boostMaxSpeed h"
    "0 \<le> staminaDrainRate h" "0 \<le> staminaRecoveryRate h"
  shows "0 \<le> speed (handleInput dt i h) \<and> 0 \<le> stamina (handleInput dt i h)
     \<and> stamina (handleInput dt i h) \<le> maxStamina (handleInput dt i h)"
proof -
  have a: "0 \<le> acceleration h * dt" and d: "0 \<le> staminaDrainRate h * dt"
    and r: "0 \<le> staminaRecoveryRate h * dt"
    using assms by simp_all
  show ?thesis
    using assms(1-3,6,7) a d r by (auto simp: handleInput_def Let_def)
qed

lemma update_motion_fields:
  "\<not> finished h \<Longrightarrow>
   speed (update t dt i h) = speed (handleInput dt i h) \<and>
   stamina (update t dt i h) = stamina (handleInput dt i h) \<and>
   maxStamina (update t dt i h) = maxStamina (handleInput dt i h) \<and>
   distance (update t dt i h) = distance h + speed (handleInput dt i h) * dt"
  by (simp add: update_def checkRaceCompletion_def updatePosition_def Let_def
      handleInput_constants)

text \<open>The constants of a racer are not assigned by a step, and the constructors set
  them non-negative; so the bounds hold along every run of steps.\<close>

lemma update_constants:
  "maxSpeed (update t dt i h) = maxSpeed h \<and>
   boostMaxSpeed (update t dt i h) = boostMaxSpeed h \<and>
   acceleration (update t dt i h) = acceleration h \<and>
   deceleration (update t dt i h) = deceleration h \<and>
   maxStamina (update t dt i h) = maxStamina h \<and>
   staminaDrainRate (update t dt i h) = staminaDrainRate h \<and>
   staminaRecoveryRate (update t dt i h) = staminaRecoveryRate h \<and>
   laneNumber (update t dt i h) = laneNumber h"
  by (simp add: update_def checkRaceCompletion_def updatePosition_def Let_def
      handleInput_constants)

lemma AIHorse_new_rates:
  assumes "\<forall>k. 0 \<le> random k" "0 \<le> diff"
  shows "0 \<le> acceleration (AIHorse_new t lane c diff random) \<and>
     0 \<le> maxSpeed (AIHorse_new t lane c diff random) \<and>
     0 \<le> boostMaxSpeed (AIHorse_new t lane c diff random) \<and>
     0 \<le> staminaDrainRate (AIHorse_new t lane c diff random) \<and>
     0 \<le> staminaRecoveryRate (AIHorse_new t lane c diff random) \<and>
     speed (AIHorse_new t lane c diff random) = 0 \<and>
     stamina (AIHorse_new t lane c diff random) = maxStamina (AIHorse_new t lane c diff random)"
proof -
  have "0 \<le> random 0 * 200 * diff" "0 \<le> random 1 * 40 * diff"
    using assms by simp_all
  then show ?thesis
    by (simp add: AIHorse_new_def Let_def PlayerHorse.extend_def PlayerHorse_new_fields)
qed

lemma run_keeps_bounds:
  assumes "0 \<le> speed h" "0 \<le> stamina h" "stamina h \<le> maxStamina h"
    "0 \<le> acceleration h" "0 \<le> maxSpeed h" "0 \<le> boostMaxSpeed h"
    "0 \<le> staminaDrainRate h" "0 \<le> staminaRecoveryRate h"
    "\<forall>s \<in> set steps. 0 \<le> fst s"
  shows "0 \<le> speed (fold (\<lambda>s. update t (fst s) (snd s)) steps h) \<and>
     0 \<le> stamina (fold (\<lambda>s. update t (fst s) (snd s)) steps h) \<and>
     stamina (fold (\<lambda>s. update t (fst s) (snd s)) steps h)
       \<le> maxStamina (fold (\<lambda>s. update t (fst s) (snd s)) steps h)"
  using assms
proof (induction steps arbitrary: h)
  case Nil
  then show ?case by simp
next
  case (Cons s steps)
  have one: "0 \<le> speed (update t (fst s) (snd s) h) \<and> 0 \<le> stamina (update t (fst s) (snd s) h)
     \<and> stamina (update t (fst s) (snd s) h) \<le> maxStamina (update t (fst s) (snd s) h)"
  proof (cases "finished h")
    case True
    then show ?thesis using Cons.prems(1-3) by (simp add: update_def)
  next
    case False
    have "0 \<le> fst s" using Cons.prems(9) by simp
    then show ?thesis
      using handleInput_bounds [of h "fst s" "snd s"] Cons.prems(1-8) False
      by (simp add: update_motion_fields)
  qed
  have "0 \<le> speed (fold (\<lambda>s. update t (fst s) (snd s)) steps (update t (fst s) (snd s) h)) \<and>
     0 \<le> stamina (fold (\<lambda>s. update t (fst s) (snd s)) steps (update t (fst s) (snd s) h)) \<and>
     stamina (fold (\<lambda>s. update t (fst s) (snd s)) steps (update t (fst s) (snd s) h))
       \<le> maxStamina (fold (\<lambda>s. update t (fst s) (snd s)) steps (update t (fst s) (snd s) h))"
    using one Cons.prems(4-9) by (intro Cons.IH) (simp_all add: update_constants)
  then show ?case by simp
qed

lemma update_finished: "finished h \<Longrightarrow> update t dt i h = h"
  by (simp add: update_def)

lemma run_finished: "finished h \<Longrightarrow> fold (\<lambda>s. update t (fst s) (snd s)) steps h = h"
  by (induction steps) (simp_all add: update_finished)

text \<open>
  Claim C1. A racer with a non-negative speed and a stamina between 0 and its maximum
  keeps both bounds through one \<open>update\<close>, for every input and every non-negative
  elapsed time: the clamps are part of the step. The rate constants of the racer are
  taken non-negative, as every constructor sets them.
\<close>

theorem step_keeps_bounds:
  assumes "0 \<le> speed h" "0 \<le> stamina h" "stamina h \<le> maxStamina h" "0 \<le> dt"
    "0 \<le> acceleration h" "0 \<le> maxSpeed h" "0 \<le> boostMaxSpeed h"
    "0 \<le> staminaDrainRate h" "0 \<le> staminaRecoveryRate h"
  shows "0 \<le> speed (update t dt i h) \<and> 0 \<le> stamina (update t dt i h)
     \<and> stamina (update t dt i h) \<le> maxStamina (update t dt i h)"
proof (cases "finished h")
  case True
  then show ?thesis using assms(1-3) by (simp add: update_def)
next
  case False
  then show ?thesis
    using handleInput_bounds [OF assms, of i] by (simp add: update_motion_fields)
qed

theorem step_keeps_bounds_witness:
  "0 \<le> speed (update circleTrack (1/10) sprint freshHorse) \<and>
   0 \<le> stamina (update circleTrack (1/10) sprint freshHorse) \<and>
   stamina (update circleTrack (1/10) sprint freshHorse)
     \<le> maxStamina (update circleTrack (1/10) sprint freshHorse)"
  by (rule step_keeps_bounds) (simp_all add: PlayerHorse_new_fields)

text \<open>
  The stamina after a step without boost. While the racer accelerates it gains the
  recovery of one step; while it coasts both recovery blocks of \<open>handleInput\<close> run.
\<close>

lemma cruising_recovery:
  "forward i \<Longrightarrow> \<not> boost i \<Longrightarrow>
   stamina (handleInput dt i h) = min (maxStamina h) (stamina h + staminaRecoveryRate h * dt)"
  by (simp add: handleInput_def Let_def min_def)

lemma coasting_recovery:
  assumes "\<not> forward i" "\<not> boost i"
  shows "stamina (handleInput dt i h) =
     min (maxStamina h)
       (min (maxStamina h) (stamina h + staminaRecoveryRate h * dt) + staminaRecoveryRate h * dt)"
proof -
  define r where "r = staminaRecoveryRate h * dt"
  have "stamina (handleInput dt i h) =
     (if maxStamina h < (if maxStamina h < stamina h + r then maxStamina h else stamina h + r) + r
      then maxStamina h
      else (if maxStamina h < stamina h + r then maxStamina h else stamina h + r) + r)"
    using assms by (simp add: handleInput_def Let_def r_def)
  also have "\<dots> = min (maxStamina h) (min (maxStamina h) (stamina h + r) + r)"
    by (simp add: min_def not_less)
  finally show ?thesis by (simp add: r_def)
qed

text \<open>
  Claim C2. Without boost the stamina after a step should be
  \<open>min maxStamina (stamina + staminaRecoveryRate * dt)\<close>, whatever \<open>forward\<close> is. For a
  coasting racer with stamina 50 and a step of a tenth of a second that value is 51; the
  step returns 52.
\<close>

theorem coasting_recovers_twice:
  "stamina (update circleTrack (1/10) coast (freshHorse\<lparr>stamina := 50\<rparr>)) = 52 \<and>
   min (maxStamina (freshHorse\<lparr>stamina := 50\<rparr>))
     (stamina (freshHorse\<lparr>stamina := 50\<rparr>)
        + staminaRecoveryRate (freshHorse\<lparr>stamina := 50\<rparr>) * (1/10)) = 51"
  by (simp add: update_motion_fields coasting_recovery PlayerHorse_new_fields)

text \<open>
  Claim C3. The finished flag is a latch: after a step it is set exactly when it was
  set before or the distance has reached the track length; a racer that has finished
  keeps its distance and its flag through one step and through any sequence of steps.
\<close>

theorem finished_latch:
  "(finished h \<longrightarrow> distance (update t dt i h) = distance h \<and> finished (update t dt i h)) \<and>
   (finished (update t dt i h) =
      (finished h \<or> js_ge (Num (distance (update t dt i h))) (totalLength t))) \<and>
   (finished h \<longrightarrow>
      distance (fold (\<lambda>s. update t (fst s) (snd s)) steps h) = distance h \<and>
      finished (fold (\<lambda>s. update t (fst s) (snd s)) steps h))"
proof (cases "finished h")
  case True
  then show ?thesis by (simp add: update_finished run_finished)
next
  case False
  then show ?thesis
    by (simp add: update_def checkRaceCompletion_def updatePosition_def Let_def
        handleInput_constants)
qed

theorem finished_latch_witness:
  "finished (freshHorse\<lparr>distance := 2000, finished := True\<rparr>) \<and>
   distance (update circleTrack (1/10) cruise
      (freshHorse\<lparr>distance := 2000, finished := True\<rparr>)) = 2000 \<and>
   finished (update circleTrack (1/10) cruise
      (freshHorse\<lparr>distance := 2000, finished := True\<rparr>)) \<and>
   finished (fold (\<lambda>s. update circleTrack (fst s) (snd s)) [(1/10, coast), (1/20, sprint)]
      (freshHorse\<lparr>distance := 2000, finished := True\<rparr>))"
  using finished_latch [of "freshHorse\<lparr>distance := 2000, finished := True\<rparr>"
      circleTrack "1/10" cruise "[(1/10, coast), (1/20, sprint)]"]
  by simp

text \<open>
  On the circular track, of length \<open>440\<pi>\<close>, a racer at 1759 with speed 500 crosses
  the line in a step of a tenth of a second; a racer at 100 does not.
\<close>

lemma finish_line_examples:
  "finished (update circleTrack (1/10) cruise (freshHorse\<lparr>distance := 1759, speed := 500\<rparr>)) \<and>
   distance (update circleTrack (1/10) cruise (freshHorse\<lparr>distance := 1759, speed := 500\<rparr>)) = 1809 \<and>
   \<not> finished (update circleTrack (1/10) cruise (freshHorse\<lparr>distance := 100, speed := 500\<rparr>))"
proof -
  have "440 * pi \<le> 1809" using pi_less_4 by simp
  moreover have "\<not> 440 * pi \<le> 150" using pi_ge_two by simp
  ultimately show ?thesis
    by (simp add: update_def checkRaceCompletion_def updatePosition_def handleInput_def Let_def
        PlayerHorse_new_fields circle_track_length js_ge_def)
qed

text \<open>
  Claim C10. For a racer that has finished, \<open>update\<close> returns the racer as it was:
  speed, stamina, position and angle are unchanged with the distance and the flag, so
  its stamina does not regenerate.
\<close>

theorem finished_is_noop:
  "finished h \<Longrightarrow>
   update t dt i h = h \<and> speed (update t dt i h) = speed h \<and>
   stamina (update t dt i h) = stamina h \<and> xpos (update t dt i h) = xpos h \<and>
   ypos (update t dt i h) = ypos h \<and> angle (update t dt i h) = angle h"
  by (simp add: update_def)

theorem finished_is_noop_witness:
  "finished (freshHorse\<lparr>stamina := 40, finished := True\<rparr>) \<and>
   stamina (update circleTrack (1/10) coast (freshHorse\<lparr>stamina := 40, finished := True\<rparr>)) = 40"
  using finished_is_noop [of "freshHorse\<lparr>stamina := 40, finished := True\<rparr>"
     circleTrack "1/10" coast]
  by simp

text \<open>
  An opponent first decides its input, which moves its timers, and then runs the same
  \<open>update\<close>: the racer part of a finished opponent is unchanged as well.
\<close>

lemma determineInputState_racer:
  "PlayerHorse.truncate (snd (determineInputState t dt r a)) = PlayerHorse.truncate a"
  by (simp add: determineInputState_def Let_def PlayerHorse.truncate_def
      split: option.split prod.split)

lemma finished_opponent_unchanged:
  assumes "finished a"
  shows "PlayerHorse.truncate (AIHorse_update t dt r a) = PlayerHorse.truncate a"
proof -
  obtain inp a1 where d: "determineInputState t dt r a = (inp, a1)"
    by (cases "determineInputState t dt r a")
  have tr: "PlayerHorse.truncate a1 = PlayerHorse.truncate a"
    using determineInputState_racer [of t dt r a] d by simp
  then have "finished a1 = finished a"
    by (simp add: PlayerHorse.truncate_def)
  with assms have "update t dt inp a1 = a1" by (simp add: update_finished)
  with d tr show ?thesis by (simp add: AIHorse_update_def)
qed

section \<open>The restart\<close>

lemma reset_fields:
  "distance (reset t h) = 0 \<and> speed (reset t h) = 0 \<and> stamina (reset t h) = maxStamina h \<and>
   \<not> finished (reset t h) \<and> maxStamina (reset t h) = maxStamina h \<and>
   maxSpeed (reset t h) = maxSpeed h \<and> boostMaxSpeed (reset t h) = boostMaxSpeed h \<and>
   acceleration (reset t h) = acceleration h \<and> deceleration (reset t h) = deceleration h \<and>
   staminaDrainRate (reset t h) = staminaDrainRate h \<and>
   staminaRecoveryRate (reset t h) = staminaRecoveryRate h \<and>
   laneNumber (reset t h) = laneNumber h \<and> color (reset t h) = color h \<and>
   PlayerHorse.more (reset t h) = PlayerHorse.more h"
  by (simp add: reset_def Let_def)

lemma AIHorse_reset_fields:
  "distance (AIHorse_reset t a) = 0 \<and> speed (AIHorse_reset t a) = 0 \<and>
   stamina (AIHorse_reset t a) = maxStamina a \<and> \<not> finished (AIHorse_reset t a) \<and>
   boostTimer (AIHorse_reset t a) = 0 \<and> \<not> isBoosting (AIHorse_reset t a) \<and>
   usedStrategicBoosts (AIHorse_reset t a) = [False, False] \<and>
   maxSpeed (AIHorse_reset t a) = maxSpeed a \<and>
   boostMaxSpeed (AIHorse_reset t a) = boostMaxSpeed a \<and>
   acceleration (AIHorse_reset t a) = acceleration a \<and>
   boostProbability (AIHorse_reset t a) = boostProbability a \<and>
   boostDuration (AIHorse_reset t a) = boostDuration a \<and>
   strategicBoostPoints (AIHorse_reset t a) = strategicBoostPoints a \<and>
   conserveStaminaThreshold (AIHorse_reset t a) = conserveStaminaThreshold a \<and>
   maxStamina (AIHorse_reset t a) = maxStamina a \<and>
   difficulty (AIHorse_reset t a) = difficulty a \<and>
   laneNumber (AIHorse_reset t a) = laneNumber a"
  by (simp add: AIHorse_reset_def reset_def Let_def)

lemma restart_game:
  "gameState g = FINISHED \<Longrightarrow> forward inp \<Longrightarrow> resultsVisible g \<Longrightarrow>
   RaceGame_update dt inp rnd g = (RaceGame_reset g)\<lparr>gameState := COUNTDOWN\<rparr>"
  by (simp add: RaceGame_update_def)

lemma RaceGame_reset_parts:
  "playerHorse (RaceGame_reset g) = reset (handleResize (gameCanvas g) (track g)) (playerHorse g) \<and>
   aiHorses (aiManager (RaceGame_reset g)) =
     map (AIHorse_reset (handleResize (gameCanvas g) (track g))) (aiHorses (aiManager g)) \<and>
   finalPlacements (RaceGame_reset g) = [] \<and> \<not> resultsVisible (RaceGame_reset g) \<and>
   countdownTimer (RaceGame_reset g) = countdownTime g"
  by (simp add: RaceGame_reset_def AIManager_reset_def Let_def)

text \<open>
  Claim C9. A forward input in the finished state with the results showing restarts the
  race: the game enters the countdown, the placement list is empty, every racer is back
  at distance 0, speed 0, full stamina and not finished, every opponent's boost timer,
  boosting flag and checkpoint flags are cleared, and every opponent keeps its profile
  constants.
\<close>

theorem restart_resets_race:
  assumes "gameState g = FINISHED" "forward inp" "resultsVisible g"
  shows "(let g' = RaceGame_update dt inp rnd g;
              ais = aiHorses (aiManager g); ais' = aiHorses (aiManager g') in
     gameState g' = COUNTDOWN \<and> finalPlacements g' = [] \<and>
     distance (playerHorse g') = 0 \<and> speed (playerHorse g') = 0 \<and>
     stamina (playerHorse g') = maxStamina (playerHorse g) \<and> \<not> finished (playerHorse g') \<and>
     map distance ais' = map (\<lambda>a. 0) ais \<and> map speed ais' = map (\<lambda>a. 0) ais \<and>
     map stamina ais' = map maxStamina ais \<and> map finished ais' = map (\<lambda>a. False) ais \<and>
     map boostTimer ais' = map (\<lambda>a. 0) ais \<and> map isBoosting ais' = map (\<lambda>a. False) ais \<and>
     map usedStrategicBoosts ais' = map (\<lambda>a. [False, False]) ais \<and>
     map maxSpeed ais' = map maxSpeed ais \<and> map boostMaxSpeed ais' = map boostMaxSpeed ais \<and>
     map acceleration ais' = map acceleration ais \<and>
     map boostProbability ais' = map boostProbability ais \<and>
     map boostDuration ais' = map boostDuration ais \<and>
     map strategicBoostPoints ais' = map strategicBoostPoints ais \<and>
     map conserveStaminaThreshold ais' = map conserveStaminaThreshold ais)"
  using assms
  by (simp add: restart_game RaceGame_reset_parts reset_fields AIHorse_reset_fields Let_def comp_def)


theorem restart_resets_race_witness:
  "gameState finishedGame = FINISHED \<and> forward cruise \<and> resultsVisible finishedGame \<and>
   gameState (RaceGame_update (1/10) cruise (\<lambda>k. 0) finishedGame) = COUNTDOWN \<and>
   finalPlacements (RaceGame_update (1/10) cruise (\<lambda>k. 0) finishedGame) = [] \<and>
   distance (playerHorse (RaceGame_update (1/10) cruise (\<lambda>k. 0) finishedGame)) = 0 \<and>
   stamina (playerHorse (RaceGame_update (1/10) cruise (\<lambda>k. 0) finishedGame)) = 100"
  using restart_resets_race [of finishedGame cruise "1/10" "\<lambda>k. 0"]
  by (simp add: Let_def PlayerHorse_new_fields)

section \<open>The placement ranking\<close>

lemma mset_js_insert: "mset (js_insert cmp e ys) = add_mset e (mset ys)"
  by (induction ys) simp_all

lemma js_sort_Cons: "js_sort cmp (x # xs) = js_insert cmp x (js_sort cmp xs)"
  by (simp add: js_sort_def)

lemma mset_js_sort: "mset (js_sort cmp xs) = mset xs"
  by (induction xs) (simp_all add: js_sort_Cons mset_js_insert, simp add: js_sort_def)

lemma set_js_insert: "set (js_insert cmp e ys) = insert e (set ys)"
  using mset_js_insert [of cmp e ys] by (metis set_mset_add_mset_insert set_mset_mset)

lemma set_js_sort: "set (js_sort cmp xs) = set xs"
  using mset_js_sort [of cmp xs] by (metis set_mset_mset)

lemma length_js_sort: "length (js_sort cmp xs) = length xs"
  using mset_js_sort [of cmp xs] by (metis size_mset)

lemma ahead_trans: "js_ge a b \<Longrightarrow> js_ge b c \<Longrightarrow> js_ge a c"
  by (cases a; cases b; cases c) (simp_all add: js_ge_def)

lemma finite_cmp:
  "js_finite (progress e) \<Longrightarrow> js_finite (progress y) \<Longrightarrow>
   js_gt (js_sub (progress y) (progress e)) (Num 0) = (\<not> js_ge (progress e) (progress y))"
  by (cases "progress e"; cases "progress y") (auto simp: js_gt_def js_ge_def js_sub_def)

lemma finite_total:
  "js_finite a \<Longrightarrow> js_finite b \<Longrightarrow> \<not> js_ge a b \<Longrightarrow> js_ge b a"
  by (cases a; cases b) (auto simp: js_ge_def)

lemma sorted_js_insert:
  assumes "sorted_wrt ahead ys" "js_finite (progress e)" "\<forall>y \<in> set ys. js_finite (progress y)"
  shows "sorted_wrt ahead (js_insert byProgress e ys)"
  using assms
proof (induction ys)
  case Nil
  then show ?case by simp
next
  case (Cons y ys)
  show ?case
  proof (cases "js_ge (progress e) (progress y)")
    case True
    then have "\<forall>z \<in> set ys. js_ge (progress e) (progress z)"
      using Cons.prems(1) by (auto intro: ahead_trans)
    with True Cons.prems show ?thesis by (simp add: finite_cmp)
  next
    case False
    then have "js_ge (progress y) (progress e)"
      using Cons.prems by (simp add: finite_total)
    with False Cons show ?thesis by (simp add: finite_cmp set_js_insert)
  qed
qed

lemma sorted_js_sort:
  "\<forall>y \<in> set xs. js_finite (progress y) \<Longrightarrow> sorted_wrt ahead (js_sort byProgress xs)"
proof (induction xs)
  case Nil
  then show ?case by (simp add: js_sort_def)
next
  case (Cons x xs)
  then show ?case by (simp add: js_sort_Cons sorted_js_insert set_js_sort)
qed


lemma number_fields_Suc:
  "map place (map (\<lambda>(i, entry). Entry.extend entry (Placement.fields (i + 1)))
      (zip [0 ..< length xs] xs)) = map Suc [0 ..< length xs]"
  by (rule nth_equalityI)
     (simp_all add: Entry.extend_def Placement.fields_def Placement.defs)

lemma number_fields:
  "map place (map (\<lambda>(i, entry). Entry.extend entry (Placement.fields (i + 1)))
      (zip [0 ..< length xs] xs)) = [1 ..< Suc (length xs)]"
  using number_fields_Suc [of xs] by (simp only: map_Suc_upt) simp

lemma number_keeps_entries:
  "map Entry.truncate (map (\<lambda>(i, entry). Entry.extend entry (Placement.fields (i + 1)))
      (zip [0 ..< length xs] xs)) = (xs :: Entry list)"
  by (rule nth_equalityI)
     (simp_all add: Entry.extend_def Entry.truncate_def Placement.fields_def)

lemma computePlacements_unfold:
  "computePlacements t player ais =
     map (\<lambda>(i, entry). Entry.extend entry (Placement.fields (i + 1)))
       (zip [0 ..< length (player # map PlayerHorse.truncate ais)]
          (js_sort byProgress
             (map (placementEntry t)
                (zip [0 ..< length (player # map PlayerHorse.truncate ais)]
                   (player # map PlayerHorse.truncate ais)))))"
  by (simp add: computePlacements_def Let_def length_js_sort)


lemma entries_finite:
  assumes "totalLength t = Num L" "L \<noteq> 0"
  shows "\<forall>e \<in> set (map (placementEntry t) (zip ns hs)). js_finite (progress e)"
  using assms by (auto simp: placementEntry_def trackProgress_def)

lemma truncate_progress: "progress (Entry.truncate p) = progress p"
  by (simp add: Entry.truncate_def)

lemma sorted_head_ahead:
  assumes "sorted_wrt ahead ps" "\<forall>p \<in> set ps. js_finite (progress p)"
  shows "\<forall>p \<in> set ps. js_ge (progress (hd ps)) (progress p)"
proof (cases ps)
  case Nil
  then show ?thesis by simp
next
  case (Cons q qs)
  have "js_ge (progress q) (progress q)"
    using assms(2) Cons by (cases "progress q") (auto simp: js_ge_def)
  with assms(1) Cons show ?thesis by auto
qed

lemma digits_small: "digits (Suc 0) = ''1'' \<and> digits (Suc (Suc 0)) = ''2''"
  by (simp add: digits.simps)

lemma truncate_distance: "distance (PlayerHorse.truncate a) = distance a"
  by (simp add: PlayerHorse.truncate_def)

lemma placements_example:
  assumes "totalLength t = Num L" "L \<noteq> 0" "distance player = 1.02 * L"
    "map distance ais = [L, 0.95 * L]"
  shows "map name (computePlacements t player ais) = [''You'', ''AI 1'', ''AI 2''] \<and>
     map progress (computePlacements t player ais) = [Num 1.02, Num 1, Num 0.95] \<and>
     map place (computePlacements t player ais) = [1, 2, 3]"
proof -
  obtain a1 a2 where ais: "ais = [a1, a2]" and d: "distance a1 = L" "distance a2 = 0.95 * L"
    using assms(4) by (auto simp: map_eq_Cons_conv)
  have p0: "trackProgress t player = Num 1.02"
    using assms(1-3) by (simp add: trackProgress_def)
  have p1: "trackProgress t (PlayerHorse.truncate a1) = Num 1"
    using assms(1,2) d by (simp add: trackProgress_def truncate_distance)
  have p2: "trackProgress t (PlayerHorse.truncate a2) = Num 0.95"
    using assms(1,2) d by (simp add: trackProgress_def truncate_distance)
  show ?thesis
    by (simp add: ais computePlacements_def Let_def js_sort_def placementEntry_def
        p0 p1 p2 digits_small js_sub_def js_gt_def
        Entry.extend_def Placement.fields_def Placement.defs)
qed

text \<open>
  Claim C4. On a track whose length is a finite non-zero number (the only lengths
  \<open>calculateTrackLength\<close> produces besides \<open>NaN\<close>, with which no racer finishes), the
  ranking computed when the player finishes numbers the entries 1 to N in order, is a
  permutation of the entries of all horses, is sorted by descending progress, and its
  first entry holds place 1 and the greatest progress. Three racers with progress 1.02,
  1.00 and 0.95 are ranked 1, 2, 3 in that order.
\<close>

theorem placements_ranking:
  assumes "totalLength t = Num L" "L \<noteq> 0"
  shows "(let allHorses = player # map PlayerHorse.truncate ais;
              ps = computePlacements t player ais in
     map place ps = [1 ..< Suc (length allHorses)] \<and>
     mset (map Entry.truncate ps) =
       mset (map (placementEntry t) (zip [0 ..< length allHorses] allHorses)) \<and>
     sorted_wrt (\<lambda>a b. js_ge (progress a) (progress b)) ps \<and>
     (\<forall>p \<in> set ps. js_ge (progress (hd ps)) (progress p)) \<and> place (hd ps) = 1 \<and>
     (distance player = 1.02 * L \<and> map distance ais = [L, 0.95 * L] \<longrightarrow>
        map name ps = [''You'', ''AI 1'', ''AI 2''] \<and>
        map progress ps = [Num 1.02, Num 1, Num 0.95] \<and> map place ps = [1, 2, 3]))"
proof -
  define allHorses where "allHorses = player # map PlayerHorse.truncate ais"
  define entries where "entries = map (placementEntry t) (zip [0 ..< length allHorses] allHorses)"
  define srt where "srt = js_sort byProgress entries"
  define ps where "ps = computePlacements t player ais"
  have len: "length srt = length allHorses"
    by (simp add: srt_def entries_def length_js_sort)
  have ps_eq: "ps = map (\<lambda>(i, entry). Entry.extend entry (Placement.fields (i + 1)))
       (zip [0 ..< length srt] srt)"
    unfolding ps_def len unfolding srt_def entries_def allHorses_def
    by (rule computePlacements_unfold)
  have places: "map place ps = [1 ..< Suc (length allHorses)]"
    using number_fields [of srt] by (simp only: ps_eq len)
  have trunc: "map Entry.truncate ps = srt"
    unfolding ps_eq by (rule number_keeps_entries)
  have perm: "mset (map Entry.truncate ps) = mset entries"
    by (simp add: trunc srt_def mset_js_sort)
  have fin: "\<forall>e \<in> set entries. js_finite (progress e)"
    unfolding entries_def by (rule entries_finite [OF assms])
  have "sorted_wrt ahead srt"
    unfolding srt_def by (rule sorted_js_sort [OF fin])
  then have "sorted_wrt ahead (map Entry.truncate ps)"
    by (simp add: trunc)
  then have srtd: "sorted_wrt ahead ps"
    by (simp add: sorted_wrt_map truncate_progress)
  have "\<forall>p \<in> set ps. js_finite (progress p)"
  proof
    fix p assume "p \<in> set ps"
    then have "Entry.truncate p \<in> set (map Entry.truncate ps)" by simp
    then have "Entry.truncate p \<in> set entries"
      by (simp only: trunc srt_def set_js_sort)
    with fin show "js_finite (progress p)" by (auto simp: truncate_progress)
  qed
  with srtd have top: "\<forall>p \<in> set ps. js_ge (progress (hd ps)) (progress p)"
    by (rule sorted_head_ahead)
  have "ps \<noteq> []"
    using places by (auto simp: allHorses_def)
  then have "place (hd ps) = hd (map place ps)"
    by (simp add: hd_map)
  also have "\<dots> = 1"
    unfolding places by (simp add: allHorses_def upt_conv_Cons del: upt_Suc)
  finally have first: "place (hd ps) = 1" .
  have example: "distance player = 1.02 * L \<and> map distance ais = [L, 0.95 * L] \<longrightarrow>
        map name ps = [''You'', ''AI 1'', ''AI 2''] \<and>
        map progress ps = [Num 1.02, Num 1, Num 0.95] \<and> map place ps = [1, 2, 3]"
    using placements_example [OF assms, of player ais] by (simp add: ps_def)
  show ?thesis
    unfolding Let_def
    using places perm srtd top first example
    unfolding ps_def entries_def allHorses_def
    by (intro conjI) assumption+
qed



lemma placements_unsorted_input:
  "map name (computePlacements kiloTrack (freshHorse\<lparr>distance := 1000\<rparr>)
      [rival 1 950, rival 2 1020]) = [''AI 2'', ''You'', ''AI 1''] \<and>
   map place (computePlacements kiloTrack (freshHorse\<lparr>distance := 1000\<rparr>)
      [rival 1 950, rival 2 1020]) = [1, 2, 3]"
  by (simp add: computePlacements_def Let_def js_sort_def placementEntry_def
      trackProgress_def truncate_distance digits_small js_sub_def js_gt_def
      Entry.extend_def Placement.fields_def Placement.defs)

theorem placements_ranking_witness:
  "totalLength kiloTrack = Num 1000 \<and> (1000 :: real) \<noteq> 0 \<and>
   map place (computePlacements kiloTrack (freshHorse\<lparr>distance := 1000\<rparr>)
      [rival 1 950, rival 2 1020]) = [1, 2, 3] \<and>
   sorted_wrt (\<lambda>a b. js_ge (progress a) (progress b))
     (computePlacements kiloTrack (freshHorse\<lparr>distance := 1000\<rparr>) [rival 1 950, rival 2 1020]) \<and>
   place (hd (computePlacements kiloTrack (freshHorse\<lparr>distance := 1000\<rparr>)
      [rival 1 950, rival 2 1020])) = 1"
  using placements_ranking [of kiloTrack 1000 "freshHorse\<lparr>distance := 1000\<rparr>"
      "[rival 1 950, rival 2 1020]"]
  by (simp add: Let_def upt_conv_Cons del: upt_Suc)

section \<open>The track geometry\<close>

lemma length_value:
  assumes "centerlineX t + centerlineY t \<noteq> 0"
    "3 * (centerlineX t - centerlineY t) ^ 2 \<le> 4 * (centerlineX t + centerlineY t) ^ 2"
  shows "calculateTrackLength t = Num (ramanujan (centerlineX t) (centerlineY t))"
proof -
  define a where "a = centerlineX t"
  define b where "b = centerlineY t"
  define h where "h = (a - b) ^ 2 / (a + b) ^ 2"
  have s: "(a + b) ^ 2 \<noteq> 0" using assms(1) by (simp add: a_def b_def)
  have pos: "0 < (a + b) ^ 2" using s by simp
  have "3 * h \<le> 4"
    using assms(2) pos by (simp add: h_def a_def b_def pos_divide_le_eq)
  then have nn: "\<not> 4 - 3 * h < 0" by simp
  have "0 \<le> sqrt (4 - 3 * h)" using nn by simp
  then have d: "10 + sqrt (4 - 3 * h) \<noteq> 0" by linarith
  have "calculateTrackLength t =
      js_mul (Num (pi * (a + b)))
           (js_add (Num 1)
              (js_div (js_mul (Num 3) (Num h))
                 (js_add (Num 10) (js_sqrt (js_sub (Num 4) (js_mul (Num 3) (Num h)))))))"
    using s by (simp add: calculateTrackLength_def Let_def a_def b_def h_def centerlineX_def centerlineY_def)
  also have "\<dots> = Num (pi * (a + b) * (1 + 3 * h / (10 + sqrt (4 - 3 * h))))"
    using nn d by (simp add: js_sub_def)
  finally show ?thesis
    by (simp add: ramanujan_def Let_def a_def b_def h_def)
qed

lemma length_NaN:
  assumes "centerlineX t + centerlineY t = 0 \<or>
    4 * (centerlineX t + centerlineY t) ^ 2 < 3 * (centerlineX t - centerlineY t) ^ 2"
  shows "calculateTrackLength t = NaN"
proof (cases "centerlineX t + centerlineY t = 0")
  case True
  then show ?thesis
    by (simp add: calculateTrackLength_def Let_def centerlineX_def centerlineY_def js_sub_def js_inf_def)
next
  case False
  define a where "a = centerlineX t"
  define b where "b = centerlineY t"
  define h where "h = (a - b) ^ 2 / (a + b) ^ 2"
  have s: "(a + b) ^ 2 \<noteq> 0" using False by (simp add: a_def b_def)
  have pos: "0 < (a + b) ^ 2" using s by simp
  have "4 < 3 * h"
    using assms False pos by (simp add: h_def a_def b_def pos_less_divide_eq)
  then have neg: "4 - 3 * h < 0" by simp
  have "calculateTrackLength t =
      js_mul (Num (pi * (a + b)))
           (js_add (Num 1)
              (js_div (js_mul (Num 3) (Num h))
                 (js_add (Num 10) (js_sqrt (js_sub (Num 4) (js_mul (Num 3) (Num h)))))))"
    using s by (simp add: calculateTrackLength_def Let_def a_def b_def h_def centerlineX_def centerlineY_def)
  also have "\<dots> = NaN"
    using neg by (simp add: js_sub_def)
  finally show ?thesis .
qed

lemma ramanujan_sign:
  assumes "a + b \<noteq> 0" "3 * (a - b) ^ 2 \<le> 4 * (a + b) ^ 2"
  shows "(0 < ramanujan a b) = (0 < a + b)" and "ramanujan a b \<noteq> 0"
proof -
  define h where "h = (a - b) ^ 2 / (a + b) ^ 2"
  have pos: "0 < (a + b) ^ 2" using assms(1) by simp
  have h0: "0 \<le> h" by (simp add: h_def)
  have "3 * h \<le> 4"
    using assms(2) pos by (simp add: h_def pos_divide_le_eq)
  then have "0 \<le> sqrt (4 - 3 * h)" by simp
  then have "0 \<le> 3 * h / (10 + sqrt (4 - 3 * h))" using h0 by simp
  then have f: "0 < 1 + 3 * h / (10 + sqrt (4 - 3 * h))" by linarith
  have r: "ramanujan a b = pi * (a + b) * (1 + 3 * h / (10 + sqrt (4 - 3 * h)))"
    by (simp add: ramanujan_def Let_def h_def)
  show "(0 < ramanujan a b) = (0 < a + b)"
    unfolding r using f by (simp add: zero_less_mult_iff)
  show "ramanujan a b \<noteq> 0"
    unfolding r using f assms(1) by simp
qed


lemma length_is_NaN_or_nonzero:
  "calculateTrackLength t = NaN \<or>
   (calculateTrackLength t = Num (ramanujan (centerlineX t) (centerlineY t)) \<and>
    ramanujan (centerlineX t) (centerlineY t) \<noteq> 0)"
proof (cases "centerlineX t + centerlineY t \<noteq> 0 \<and>
    3 * (centerlineX t - centerlineY t) ^ 2 \<le> 4 * (centerlineX t + centerlineY t) ^ 2")
  case True
  then show ?thesis by (simp add: length_value ramanujan_sign(2))
next
  case False
  then have "calculateTrackLength t = NaN"
    by (intro length_NaN) auto
  then show ?thesis by simp
qed

lemma length_positive_iff:
  "js_gt (calculateTrackLength t) (Num 0) =
     (0 < centerlineX t + centerlineY t \<and>
      3 * (centerlineX t - centerlineY t) ^ 2 \<le> 4 * (centerlineX t + centerlineY t) ^ 2)"
proof (cases "centerlineX t + centerlineY t \<noteq> 0 \<and>
    3 * (centerlineX t - centerlineY t) ^ 2 \<le> 4 * (centerlineX t + centerlineY t) ^ 2")
  case True
  then show ?thesis
    using ramanujan_sign(1) [of "centerlineX t" "centerlineY t"]
    by (simp add: length_value js_gt_def)
next
  case False
  then have "calculateTrackLength t = NaN"
    by (intro length_NaN) auto
  with False show ?thesis by (auto simp: js_gt_def)
qed

text \<open>The value of \<open>calculateTrackLength\<close> in every case, and its sign.\<close>

lemma length_exact:
  "calculateTrackLength u =
     (if centerlineX u + centerlineY u \<noteq> 0 \<and>
         3 * (centerlineX u - centerlineY u) ^ 2 \<le> 4 * (centerlineX u + centerlineY u) ^ 2
      then Num (ramanujan (centerlineX u) (centerlineY u)) else NaN)"
proof (cases "centerlineX u + centerlineY u \<noteq> 0 \<and>
    3 * (centerlineX u - centerlineY u) ^ 2 \<le> 4 * (centerlineX u + centerlineY u) ^ 2")
  case True
  then show ?thesis by (simp add: length_value)
next
  case False
  then have "calculateTrackLength u = NaN"
    by (intro length_NaN) auto
  with False show ?thesis by auto
qed

lemma length_negative_iff:
  "js_lt (calculateTrackLength u) (Num 0) =
     (centerlineX u + centerlineY u < 0 \<and>
      3 * (centerlineX u - centerlineY u) ^ 2 \<le> 4 * (centerlineX u + centerlineY u) ^ 2)"
proof (cases "centerlineX u + centerlineY u \<noteq> 0 \<and>
    3 * (centerlineX u - centerlineY u) ^ 2 \<le> 4 * (centerlineX u + centerlineY u) ^ 2")
  case True
  then have s: "(0 < ramanujan (centerlineX u) (centerlineY u)) = (0 < centerlineX u + centerlineY u)"
    and n: "ramanujan (centerlineX u) (centerlineY u) \<noteq> 0"
    by (simp_all add: ramanujan_sign)
  have "(ramanujan (centerlineX u) (centerlineY u) < 0) = (centerlineX u + centerlineY u < 0)"
    using s n True by auto
  with True show ?thesis by (simp add: length_value)
next
  case False
  then have "calculateTrackLength u = NaN"
    by (intro length_NaN) auto
  with False show ?thesis by auto
qed

lemma Track_new_fields:
  "outerRadiusX (Track_new cv) = width cv * 0.4 \<and> outerRadiusY (Track_new cv) = height cv * 0.35 \<and>
   trackWidth (Track_new cv) = 120 \<and>
   innerRadiusX (Track_new cv) = width cv * 0.4 - 120 \<and>
   innerRadiusY (Track_new cv) = height cv * 0.35 - 120 \<and>
   laneCount (Track_new cv) = 6 \<and> laneSpacing (Track_new cv) = 20 \<and>
   centerX (Track_new cv) = width cv / 2 \<and> centerY (Track_new cv) = height cv / 2"
  by (simp add: Track_new_def setupTrack_def Let_def)

lemma Track_new_length: "totalLength (Track_new cv) = calculateTrackLength (Track_new cv)"
  by (simp add: Track_new_def setupTrack_def Let_def calculateTrackLength_def)

lemma TrackRetro_new_length:
  "totalLength (TrackRetro_new cv) = calculateTrackLength (TrackRetro_new cv)"
  by (simp add: TrackRetro_new_def setupTrack_def Let_def calculateTrackLength_def)

lemma handleResize_retro_length:
  "totalLength (handleResize_retro cv t) = calculateTrackLength (handleResize_retro cv t)"
  by (simp add: handleResize_retro_def Let_def calculateTrackLength_def)

text \<open>The resize of public/track.js leaves the length field as it was.\<close>

lemma handleResize_keeps_length: "totalLength (handleResize cv t) = totalLength t"
  by (simp add: handleResize_def Let_def)

text \<open>
  Claim C5, as amended. After the construction of a track and after every
  \<open>handleResize\<close> the inner radius is the outer radius less the track width on each
  axis. After the construction, and after every resize of the track version that
  recomputes it, the length field is \<open>calculateTrackLength\<close> of the current radii. With
  the centerline semi-axes \<open>a\<close> and \<open>b\<close> that value is the Ramanujan formula when
  \<open>a + b \<noteq> 0\<close> and \<open>3 (a - b)\<^sup>2 \<le> 4 (a + b)\<^sup>2\<close>, and \<open>NaN\<close> in every other case. It
  is positive exactly when moreover \<open>0 < a + b\<close>, and negative exactly when moreover
  \<open>a + b < 0\<close>.
\<close>

theorem track_invariant:
  "innerRadiusX (Track_new cv) = outerRadiusX (Track_new cv) - trackWidth (Track_new cv) \<and>
   innerRadiusY (Track_new cv) = outerRadiusY (Track_new cv) - trackWidth (Track_new cv) \<and>
   totalLength (Track_new cv) = calculateTrackLength (Track_new cv) \<and>
   innerRadiusX (handleResize cv t) = outerRadiusX (handleResize cv t) - trackWidth (handleResize cv t) \<and>
   innerRadiusY (handleResize cv t) = outerRadiusY (handleResize cv t) - trackWidth (handleResize cv t) \<and>
   innerRadiusX (TrackRetro_new cv) = outerRadiusX (TrackRetro_new cv) - trackWidth (TrackRetro_new cv) \<and>
   innerRadiusY (TrackRetro_new cv) = outerRadiusY (TrackRetro_new cv) - trackWidth (TrackRetro_new cv) \<and>
   totalLength (TrackRetro_new cv) = calculateTrackLength (TrackRetro_new cv) \<and>
   innerRadiusX (handleResize_retro cv r) =
     outerRadiusX (handleResize_retro cv r) - trackWidth (handleResize_retro cv r) \<and>
   innerRadiusY (handleResize_retro cv r) =
     outerRadiusY (handleResize_retro cv r) - trackWidth (handleResize_retro cv r) \<and>
   totalLength (handleResize_retro cv r) = calculateTrackLength (handleResize_retro cv r) \<and>
   calculateTrackLength u =
     (if centerlineX u + centerlineY u \<noteq> 0 \<and>
         3 * (centerlineX u - centerlineY u) ^ 2 \<le> 4 * (centerlineX u + centerlineY u) ^ 2
      then Num (ramanujan (centerlineX u) (centerlineY u)) else NaN) \<and>
   js_gt (calculateTrackLength u) (Num 0) =
     (0 < centerlineX u + centerlineY u \<and>
      3 * (centerlineX u - centerlineY u) ^ 2 \<le> 4 * (centerlineX u + centerlineY u) ^ 2) \<and>
   js_lt (calculateTrackLength u) (Num 0) =
     (centerlineX u + centerlineY u < 0 \<and>
      3 * (centerlineX u - centerlineY u) ^ 2 \<le> 4 * (centerlineX u + centerlineY u) ^ 2)"
proof -
  have a: "innerRadiusX (Track_new cv) = outerRadiusX (Track_new cv) - trackWidth (Track_new cv) \<and>
   innerRadiusY (Track_new cv) = outerRadiusY (Track_new cv) - trackWidth (Track_new cv)"
    by (simp add: Track_new_fields)
  have b: "innerRadiusX (handleResize cv t) = outerRadiusX (handleResize cv t) - trackWidth (handleResize cv t) \<and>
   innerRadiusY (handleResize cv t) = outerRadiusY (handleResize cv t) - trackWidth (handleResize cv t)"
    by (simp add: handleResize_def Let_def)
  have c: "innerRadiusX (TrackRetro_new cv) = outerRadiusX (TrackRetro_new cv) - trackWidth (TrackRetro_new cv) \<and>
   innerRadiusY (TrackRetro_new cv) = outerRadiusY (TrackRetro_new cv) - trackWidth (TrackRetro_new cv)"
    by (simp add: TrackRetro_new_def setupTrack_def Let_def)
  have d: "innerRadiusX (handleResize_retro cv r) =
     outerRadiusX (handleResize_retro cv r) - trackWidth (handleResize_retro cv r) \<and>
   innerRadiusY (handleResize_retro cv r) =
     outerRadiusY (handleResize_retro cv r) - trackWidth (handleResize_retro cv r)"
    by (simp add: handleResize_retro_def Let_def)
  show ?thesis
    using a b c d Track_new_length [of cv] TrackRetro_new_length [of cv]
      handleResize_retro_length [of cv r] length_exact [of u] length_positive_iff [of u]
      length_negative_iff [of u]
    by (intro conjI) (erule conjE, assumption)+
qed

text \<open>
  Claim C5, as stated, asks for a positive length after every construction. On a canvas
  of 1000 by 100 the centerline semi-axes are 340 and -25, \<open>4 - 3h\<close> is negative and the
  length is \<open>NaN\<close>.
\<close>

theorem flat_canvas_length_counterexample:
  "totalLength (Track_new \<lparr>width = 1000, height = 100\<rparr>) = NaN \<and>
   \<not> js_gt (totalLength (Track_new \<lparr>width = 1000, height = 100\<rparr>)) (Num 0)"
proof -
  have "calculateTrackLength (Track_new \<lparr>width = 1000, height = 100\<rparr>) = NaN"
    by (rule length_NaN) (simp add: centerlineX_def centerlineY_def Track_new_fields)
  then show ?thesis by (simp add: Track_new_length js_gt_def)
qed

text \<open>
  On a canvas of 100 by 100 the semi-axes are -20 and -25 and the length is a negative
  number.
\<close>

lemma small_canvas_negative_length:
  "js_lt (totalLength (Track_new \<lparr>width = 100, height = 100\<rparr>)) (Num 0) \<and>
   totalLength (Track_new \<lparr>width = 100, height = 100\<rparr>) = Num (ramanujan (- 20) (- 25))"
proof -
  have c: "centerlineX (Track_new \<lparr>width = 100, height = 100\<rparr>) = - 20 \<and>
      centerlineY (Track_new \<lparr>width = 100, height = 100\<rparr>) = - 25"
    by (simp add: centerlineX_def centerlineY_def Track_new_fields)
  have neg: "js_lt (calculateTrackLength (Track_new \<lparr>width = 100, height = 100\<rparr>)) (Num 0)"
    by (simp add: length_negative_iff c)
  have val: "calculateTrackLength (Track_new \<lparr>width = 100, height = 100\<rparr>) =
      Num (ramanujan (- 20) (- 25))"
    by (simp add: length_exact c)
  show ?thesis
    using neg val by (simp only: Track_new_length)
qed

text \<open>
  Doubling the canvas of the circular track: the radii follow, the length field of
  public/track.js stays at \<open>440\<pi>\<close> where the formula now gives \<open>1000\<pi>\<close>.
\<close>

lemma resize_leaves_stale_length:
  "totalLength (handleResize \<lparr>width = 1400, height = 1600\<rparr> circleTrack) = Num (440 * pi) \<and>
   calculateTrackLength (handleResize \<lparr>width = 1400, height = 1600\<rparr> circleTrack) = Num (1000 * pi)"
  by (simp add: handleResize_keeps_length circle_track_length)
     (simp add: handleResize_def Let_def calculateTrackLength_def js_sub_def Track_new_fields)

text \<open>
  A racer finishes only where \<open>distance >= totalLength\<close> is true; a length that
  \<open>calculateTrackLength\<close> computed is then a non-zero number.
\<close>

lemma finished_length_is_a_number:
  assumes "totalLength t = calculateTrackLength u" "js_ge (Num d) (totalLength t)"
  shows "totalLength t = Num (ramanujan (centerlineX u) (centerlineY u)) \<and>
     ramanujan (centerlineX u) (centerlineY u) \<noteq> 0"
  using assms length_is_NaN_or_nonzero [of u] by (auto simp: js_ge_def)

lemma position_on_zero_length:
  "totalLength t = Num 0 \<Longrightarrow> getTrackPosition t d lane = \<lparr>px = NaN, py = NaN, pangle = NaN\<rparr>"
  by (simp add: getTrackPosition_def Let_def)

lemma position_on_NaN_length:
  "totalLength t = NaN \<Longrightarrow> getTrackPosition t d lane = \<lparr>px = NaN, py = NaN, pangle = NaN\<rparr>"
  by (simp add: getTrackPosition_def Let_def)

lemma position_on_finite_length:
  "totalLength t = Num L \<Longrightarrow> L \<noteq> 0 \<Longrightarrow>
   getTrackPosition t d lane =
     \<lparr>px = Num (centerX t + (innerRadiusX t + of_int lane * laneSpacing t) *
                cos ((d - L * js_trunc (d / L)) / L * 2 * pi + pi / 2)),
      py = Num (centerY t + (innerRadiusY t + of_int lane * laneSpacing t) *
                sin ((d - L * js_trunc (d / L)) / L * 2 * pi + pi / 2)),
      pangle = Num ((d - L * js_trunc (d / L)) / L * 2 * pi + pi / 2)\<rparr>"
  by (simp add: getTrackPosition_def Let_def)

text \<open>
  Claim C6, as amended. Neither division by the track length is guarded. On a track of
  length 0 the progress is \<open>NaN\<close> at distance 0 and an infinity elsewhere, and
  \<open>getTrackPosition\<close> returns \<open>NaN\<close> for both coordinates and the angle; a length of
  \<open>NaN\<close> gives \<open>NaN\<close> throughout. On a track of finite non-zero length the progress
  is the quotient of distance and length, and the position and the angle are finite.
\<close>

theorem unguarded_division:
  "(totalLength t = Num 0 \<longrightarrow>
      trackProgress t h = (if distance h = 0 then NaN else js_inf (distance h)) \<and>
      \<not> js_finite (trackProgress t h) \<and>
      getTrackPosition t d lane = \<lparr>px = NaN, py = NaN, pangle = NaN\<rparr>) \<and>
   (totalLength t = NaN \<longrightarrow>
      trackProgress t h = NaN \<and>
      getTrackPosition t d lane = \<lparr>px = NaN, py = NaN, pangle = NaN\<rparr>) \<and>
   (totalLength t = Num L \<and> L \<noteq> 0 \<longrightarrow>
      trackProgress t h = Num (distance h / L) \<and>
      js_finite (px (getTrackPosition t d lane)) \<and>
      js_finite (py (getTrackPosition t d lane)) \<and>
      js_finite (pangle (getTrackPosition t d lane)))"
  by (simp add: position_on_zero_length position_on_NaN_length position_on_finite_length
      trackProgress_def js_inf_def)

text \<open>
  Claim C6, as stated, asks for zero progress on a track of length 0. There the progress
  of a racer at distance 0 is \<open>NaN\<close>, at distance 5 it is \<open>Infinity\<close>, and the angle of
  its position is \<open>NaN\<close>.
\<close>

theorem zero_length_progress_counterexample:
  "trackProgress (circleTrack\<lparr>totalLength := Num 0\<rparr>) freshHorse = NaN \<and>
   trackProgress (circleTrack\<lparr>totalLength := Num 0\<rparr>) (freshHorse\<lparr>distance := 5\<rparr>) = PosInf \<and>
   pangle (getTrackPosition (circleTrack\<lparr>totalLength := Num 0\<rparr>) 5 3) = NaN"
  by (simp add: trackProgress_def PlayerHorse_new_fields js_inf_def getTrackPosition_def Let_def)

theorem unguarded_division_witness:
  "totalLength (circleTrack\<lparr>totalLength := Num 0\<rparr>) = Num 0 \<and>
   \<not> js_finite (trackProgress (circleTrack\<lparr>totalLength := Num 0\<rparr>) freshHorse) \<and>
   totalLength kiloTrack = Num 1000 \<and>
   trackProgress kiloTrack (freshHorse\<lparr>distance := 250\<rparr>) = Num (1/4) \<and>
   js_finite (pangle (getTrackPosition kiloTrack 250 3))"
  using unguarded_division [of "circleTrack\<lparr>totalLength := Num 0\<rparr>" freshHorse 0 3 1]
    unguarded_division [of kiloTrack "freshHorse\<lparr>distance := 250\<rparr>" 250 3 1000]
  by (simp add: PlayerHorse_new_fields)

lemma ovalTangent_is_derivative:
  "(ovalX t lane has_real_derivative fst (ovalTangent t lane u)) (at u) \<and>
   (ovalY t lane has_real_derivative snd (ovalTangent t lane u)) (at u)"
proof
  have "((\<lambda>u. centerX t + laneRadiusX t lane * cos u) has_real_derivative
      - laneRadiusX t lane * sin u) (at u)"
    by (auto intro!: derivative_eq_intros)
  then show "(ovalX t lane has_real_derivative fst (ovalTangent t lane u)) (at u)"
    by (simp add: ovalX_def [abs_def] ovalTangent_def)
  have "((\<lambda>u. centerY t + laneRadiusY t lane * sin u) has_real_derivative
      laneRadiusY t lane * cos u) (at u)"
    by (auto intro!: derivative_eq_intros)
  then show "(ovalY t lane has_real_derivative snd (ovalTangent t lane u)) (at u)"
    by (simp add: ovalY_def [abs_def] ovalTangent_def)
qed

lemma heading_across_the_oval:
  fixes rx ry u :: real
  assumes "0 < rx" "0 < ry"
  shows "- rx * sin u * sin u - ry * cos u * cos u \<noteq> 0"
proof -
  have "0 < rx * (sin u)\<^sup>2 + ry * (cos u)\<^sup>2"
  proof (cases "sin u = 0")
    case True
    then have "(cos u)\<^sup>2 = 1" using sin_cos_squared_add [of u] by simp
    with True assms show ?thesis by simp
  next
    case False
    then have "0 < rx * (sin u)\<^sup>2" using assms by simp
    moreover have "0 \<le> ry * (cos u)\<^sup>2" using assms by simp
    ultimately show ?thesis by linarith
  qed
  then show ?thesis by (simp add: power2_eq_square algebra_simps)
qed

lemma heading_not_tangent:
  "0 < laneRadiusX t lane \<Longrightarrow> 0 < laneRadiusY t lane \<Longrightarrow>
   \<not> points_along (ovalTangent t lane u) u"
  using heading_across_the_oval [of "laneRadiusX t lane" "laneRadiusY t lane" u]
  by (simp add: points_along_def ovalTangent_def)

lemma quarter_turn_tangent:
  assumes "0 < laneRadiusX t lane" "laneRadiusX t lane = laneRadiusY t lane"
  shows "points_along (ovalTangent t lane u) (u + pi / 2)"
proof -
  define r where "r = laneRadiusX t lane"
  have one: "sin u * sin u + cos u * cos u = 1"
    using sin_cos_squared_add [of u] by (simp add: power2_eq_square)
  have "r * (sin u * sin u) + r * (cos u * cos u) = r * (sin u * sin u + cos u * cos u)"
    by (simp only: distrib_left)
  also have "\<dots> = r" by (simp only: one mult_1_right)
  finally have "0 < r * (sin u * sin u) + r * (cos u * cos u)"
    using assms(1) by (simp add: r_def)
  then show ?thesis
    using assms(2) by (simp add: points_along_def ovalTangent_def sin_add cos_add r_def)
qed

text \<open>
  Claim C8, as amended. On a track of finite non-zero length the heading returned by
  \<open>getTrackPosition\<close> is the parameter angle of the returned point on the oval of the
  lane, and it is the same for every lane and in both versions of the track. It is not
  the tangent angle: the derivative of the oval there is \<open>ovalTangent\<close>, which never
  has the direction of the heading when both lane radii are positive; where the two
  radii are equal the tangent angle is the heading plus a quarter turn.
\<close>

theorem heading_is_parameter_angle:
  assumes "totalLength t = Num L" "L \<noteq> 0"
  shows "pangle (getTrackPosition t d lane) = Num (lapAngle L d) \<and>
     px (getTrackPosition t d lane) = Num (ovalX t lane (lapAngle L d)) \<and>
     py (getTrackPosition t d lane) = Num (ovalY t lane (lapAngle L d)) \<and>
     pangle (getTrackPosition t d lane') = pangle (getTrackPosition t d lane) \<and>
     pangle (getTrackPosition_retro r d lane) = pangle (getTrackPosition r d lane') \<and>
     (ovalX t lane has_real_derivative fst (ovalTangent t lane (lapAngle L d))) (at (lapAngle L d)) \<and>
     (ovalY t lane has_real_derivative snd (ovalTangent t lane (lapAngle L d))) (at (lapAngle L d)) \<and>
     (0 < laneRadiusX t lane \<and> 0 < laneRadiusY t lane \<longrightarrow>
        \<not> points_along (ovalTangent t lane (lapAngle L d)) (lapAngle L d)) \<and>
     (0 < laneRadiusX t lane \<and> laneRadiusX t lane = laneRadiusY t lane \<longrightarrow>
        points_along (ovalTangent t lane (lapAngle L d)) (lapAngle L d + pi / 2))"
proof -
  have pos: "pangle (getTrackPosition t d lane) = Num (lapAngle L d) \<and>
     px (getTrackPosition t d lane) = Num (ovalX t lane (lapAngle L d)) \<and>
     py (getTrackPosition t d lane) = Num (ovalY t lane (lapAngle L d))"
    using assms
    by (simp add: position_on_finite_length ovalX_def ovalY_def laneRadiusX_def laneRadiusY_def)
  have lanes: "pangle (getTrackPosition t d lane') = pangle (getTrackPosition t d lane)"
    by (simp add: getTrackPosition_def Let_def)
  have retro: "pangle (getTrackPosition_retro r d lane) = pangle (getTrackPosition r d lane')"
    by (simp add: getTrackPosition_def getTrackPosition_retro_def Let_def)
  show ?thesis
    using pos lanes retro ovalTangent_is_derivative [of t lane "lapAngle L d"]
      heading_not_tangent [of t lane "lapAngle L d"]
      quarter_turn_tangent [of t lane "lapAngle L d"]
    by blast
qed

lemma circle_lane_radius: "laneRadiusX circleTrack 3 = 220 \<and> laneRadiusY circleTrack 3 = 220"
  by (simp add: laneRadiusX_def laneRadiusY_def circle_track_fields)

theorem heading_is_parameter_angle_witness:
  "totalLength circleTrack = Num (440 * pi) \<and> 440 * pi \<noteq> (0 :: real) \<and>
   pangle (getTrackPosition circleTrack 0 3) = Num (pi / 2) \<and>
   0 < laneRadiusX circleTrack 3 \<and> 0 < laneRadiusY circleTrack 3 \<and>
   \<not> points_along (ovalTangent circleTrack 3 (pi / 2)) (pi / 2) \<and>
   points_along (ovalTangent circleTrack 3 (pi / 2)) (pi / 2 + pi / 2)"
  using heading_is_parameter_angle [of circleTrack "440 * pi" 0 3 3
      "TrackRetro_new \<lparr>width = 700, height = 800\<rparr>"]
  by (simp add: circle_track_length circle_lane_radius js_trunc_def)

text \<open>
  Claim C8, as stated, makes the heading the tangent angle. At distance 0 in lane 3 of
  the circular track the heading is \<open>\<pi>/2\<close>, the direction \<open>(0, 1)\<close>, while the
  derivative of the oval is \<open>(-220, 0)\<close>.
\<close>

theorem heading_tangent_counterexample:
  "pangle (getTrackPosition circleTrack 0 3) = Num (pi / 2) \<and>
   ovalTangent circleTrack 3 (pi / 2) = (- 220, 0) \<and>
   \<not> points_along (ovalTangent circleTrack 3 (pi / 2)) (pi / 2)"
  by (simp add: getTrackPosition_def Let_def circle_track_length js_trunc_def
      ovalTangent_def points_along_def circle_lane_radius)

section \<open>The lanes\<close>

lemma AIHorse_new_lane: "laneNumber (AIHorse_new t lane c d r) = lane"
  by (simp add: AIHorse_new_def Let_def PlayerHorse.extend_def PlayerHorse_new_fields)

lemma new_game_lanes:
  "laneCount (track (RaceGame_new cv rnd)) = 6 \<and>
   laneNumber (playerHorse (RaceGame_new cv rnd)) = 3 \<and>
   map laneNumber (aiHorses (aiManager (RaceGame_new cv rnd))) = [1, 2, 4, 5, 6]"
  by (simp add: RaceGame_new_def RaceGame_reset_def AIManager_reset_def AIManager_new_def
      createAIHorses_def Let_def handleResize_def Track_new_fields reset_fields
      PlayerHorse_new_fields AIHorse_reset_fields AIHorse_new_lane aiLane_def upt_conv_Cons comp_def
      del: upt_Suc)

lemma new_game_horses:
  "length (aiHorses (aiManager (RaceGame_new cv rnd))) = 5"
  by (simp add: RaceGame_new_def RaceGame_reset_def AIManager_reset_def AIManager_new_def
      createAIHorses_def Let_def)

text \<open>
  Claim C7, as amended. The constructors store the lane they are given without a check.
  In the race setup the track has six lanes, the player is in lane 3 and the first four
  opponents are in lanes 1, 2, 4 and 5.
\<close>

theorem construction_keeps_lane:
  "laneNumber (PlayerHorse_new t lane) = lane \<and>
   laneNumber (AIHorse_new t lane c d r) = lane \<and>
   laneCount (track (RaceGame_new cv rnd)) = 6 \<and>
   laneNumber (playerHorse (RaceGame_new cv rnd)) = 3 \<and>
   map laneNumber (take 4 (aiHorses (aiManager (RaceGame_new cv rnd)))) = [1, 2, 4, 5]"
  by (simp add: PlayerHorse_new_fields AIHorse_new_lane new_game_lanes flip: take_map)

text \<open>
  Claim C7, as stated, has every racer in a lane from 0 to \<open>laneCount - 1\<close>. A player
  horse constructed with lane -1 keeps lane -1, and the fifth opponent of the race setup
  is in lane 6 of a track with six lanes.
\<close>

theorem lane_unchecked_counterexample:
  "laneNumber (PlayerHorse_new circleTrack (- 1)) = - 1 \<and>
   \<not> (0 \<le> laneNumber (PlayerHorse_new circleTrack (- 1))) \<and>
   laneCount (track (RaceGame_new \<lparr>width = 700, height = 800\<rparr> (\<lambda>k. 1 / 2))) = 6 \<and>
   laneNumber (aiHorses (aiManager (RaceGame_new \<lparr>width = 700, height = 800\<rparr> (\<lambda>k. 1 / 2))) ! 4) = 6"
proof -
  have "laneNumber (aiHorses (aiManager (RaceGame_new \<lparr>width = 700, height = 800\<rparr> (\<lambda>k. 1 / 2))) ! 4)
     = map laneNumber (aiHorses (aiManager (RaceGame_new \<lparr>width = 700, height = 800\<rparr> (\<lambda>k. 1 / 2)))) ! 4"
    by (simp add: new_game_horses)
  also have "\<dots> = 6" by (simp add: new_game_lanes)
  finally show ?thesis by (simp add: PlayerHorse_new_fields new_game_lanes)
qed

end
